theory Spec2Isabelle
  imports Complex_Main "HOL-Library.AList" "HOL-Library.Word"
begin

section \<open>JavaScript values, objects and errors\<close>

text \<open>
  The controller \<^verbatim>\<open>ngo.controller.js\<close> moves JSON-like values between a request,
  a document store and a response. A value is one of JavaScript's primitives, a
  store-generated object id, an array or an object; an object is its list of
  key/value entries in insertion order.

  A JavaScript string is a sequence of UTF-16 code units: \<^verbatim>\<open>length\<close> counts them
  and \<^verbatim>\<open>trim\<close> inspects them. The string values of the model are therefore lists
  of 16-bit words. \<open>JStr\<close> writes such a value from a literal of the source, one code
  unit for each of its characters. The keys of an object are only ever compared with
  each other, so a key stays a \<^typ>\<open>string\<close>.
\<close>

type_synonym code_unit = "16 word"

datatype jsval =
    JUndefined
  | JNull
  | JBool bool
  | JNum real
  | JString "code_unit list"
  | JOid nat
  | JArr "jsval list"
  | JObj "(string \<times> jsval) list"

abbreviation JStr :: "string \<Rightarrow> jsval" where
  "JStr s \<equiv> JString (map of_char s)"

type_synonym obj = "(string \<times> jsval) list"

text \<open>
  What the handlers throw: \<^verbatim>\<open>new ApiError(statusCode, message)\<close>, the runtime's
  \<^verbatim>\<open>TypeError\<close> and \<^verbatim>\<open>ReferenceError\<close>, and an error raised by an
  external collaborator (notification service, file storage).
\<close>

datatype error =
    ApiError nat string
  | TypeError string
  | ReferenceError string
  | ServiceError string

text \<open>\<^verbatim>\<open>new ApiResponse(statusCode, data, message)\<close>.\<close>

datatype response = ApiResponse nat jsval string

fun statusCode :: "response \<Rightarrow> nat" where
  "statusCode (ApiResponse c d m) = c"

fun data :: "response \<Rightarrow> jsval" where
  "data (ApiResponse c d m) = d"

text \<open>Property read \<^verbatim>\<open>o.k\<close> on an object: a missing key reads as \<^verbatim>\<open>undefined\<close>.\<close>

definition get_prop :: "obj \<Rightarrow> string \<Rightarrow> jsval" where
  "get_prop ob k = (case map_of ob k of None \<Rightarrow> JUndefined | Some v \<Rightarrow> v)"

text \<open>
  Optional chaining \<^verbatim>\<open>v?.k\<close> for a key that no primitive or array has
  (\<^verbatim>\<open>name\<close>, \<^verbatim>\<open>phone\<close>, \<^verbatim>\<open>startDate\<close>): only an object can hold it.
\<close>

fun opt_member :: "jsval \<Rightarrow> string \<Rightarrow> jsval" where
  "opt_member (JObj kvs) k = get_prop kvs k"
| "opt_member v k = JUndefined"

text \<open>Truthiness, as \<^verbatim>\<open>!v\<close> and \<^verbatim>\<open>if (v)\<close> test it.\<close>

fun truthy :: "jsval \<Rightarrow> bool" where
  "truthy JUndefined = False"
| "truthy JNull = False"
| "truthy (JBool b) = b"
| "truthy (JNum n) = (n \<noteq> 0)"
| "truthy (JString s) = (s \<noteq> [])"
| "truthy (JOid n) = True"
| "truthy (JArr xs) = True"
| "truthy (JObj kvs) = True"

text \<open>
  Setting a key, \<^verbatim>\<open>o.k = v\<close> or a later entry \<^verbatim>\<open>k: v\<close> of an object literal:
  an existing key keeps its place and takes the new value, a new key goes last.
  That is \<^const>\<open>AList.update\<close>.
\<close>

definition set_prop :: "string \<Rightarrow> jsval \<Rightarrow> obj \<Rightarrow> obj" where
  "set_prop k v ob = AList.update k v ob"

text \<open>
  \<^verbatim>\<open>Object.assign(target, source)\<close> assigns the entries of the source to the target
  from first to last. The assignment to \<^verbatim>\<open>__proto__\<close> reaches the inherited
  setter and creates no key: it replaces the prototype of the target when the value is
  an object or \<^verbatim>\<open>null\<close>, and does nothing otherwise.
\<close>

definition object_assign :: "obj \<Rightarrow> obj \<Rightarrow> obj" where
  "object_assign target source =
     fold (\<lambda>(k, v) t. if k = ''__proto__'' then t else set_prop k v t) source target"

fun is_object :: "jsval \<Rightarrow> bool" where
  "is_object (JOid n) = True"
| "is_object (JArr xs) = True"
| "is_object (JObj kvs) = True"
| "is_object v = False"

text \<open>
  A document inherits its methods, \<^verbatim>\<open>save\<close> among them, from its prototype.
  After \<^verbatim>\<open>Object.assign(facility, req.body)\<close> the call \<^verbatim>\<open>facility.save()\<close>
  no longer finds the method when the body has an entry \<^verbatim>\<open>save\<close>, which becomes
  a key of the document and hides the method (no value of a body is callable), or when
  an entry \<^verbatim>\<open>__proto__\<close> of the body replaced the prototype.
\<close>

definition hides_save :: "obj \<Rightarrow> bool" where
  "hides_save source =
     list_ex (\<lambda>(k, v). k = ''save'' \<or> (k = ''__proto__'' \<and> (v = JNull \<or> is_object v))) source"

section \<open>Constants of the module\<close>

definition NGO_STATUS_PENDING :: jsval where
  "NGO_STATUS_PENDING = JStr ''PENDING''"

definition NGO_STATUS_ACTIVE :: jsval where
  "NGO_STATUS_ACTIVE = JStr ''ACTIVE''"

definition FACILITY_OPERATIONS_CREATE :: jsval where
  "FACILITY_OPERATIONS_CREATE = JStr ''create''"

definition FACILITY_OPERATIONS_UPDATE :: jsval where
  "FACILITY_OPERATIONS_UPDATE = JStr ''update''"

definition FACILITY_OPERATIONS_DELETE :: jsval where
  "FACILITY_OPERATIONS_DELETE = JStr ''delete''"

definition FACILITY_OPERATIONS_SUSPEND :: jsval where
  "FACILITY_OPERATIONS_SUSPEND = JStr ''suspend''"

definition FACILITY_OPERATIONS_ACTIVATE :: jsval where
  "FACILITY_OPERATIONS_ACTIVATE = JStr ''activate''"

definition FACILITY_OPERATIONS_LIST :: jsval where
  "FACILITY_OPERATIONS_LIST = JStr ''LIST''"

text \<open>
  Modelled from the spec: the enumeration \<^verbatim>\<open>FACILITY_TYPE\<close> is imported from
  \<^verbatim>\<open>models/donation/facility.models.js\<close>, which is not among the sources. The
  specification names its two members \<^verbatim>\<open>CAMP\<close> and \<^verbatim>\<open>CENTER\<close>; they are
  taken as the strings of those names, as the module's own enumerations are.
\<close>

definition FACILITY_TYPE_CAMP :: jsval where
  "FACILITY_TYPE_CAMP = JStr ''CAMP''"

definition FACILITY_TYPE_CENTER :: jsval where
  "FACILITY_TYPE_CENTER = JStr ''CENTER''"

section \<open>The world: document store and notification service\<close>

text \<open>
  A call the module makes to the notification service:
  \<^verbatim>\<open>sendBulkNotifications(recipients, templateKey, payload)\<close> or
  \<^verbatim>\<open>sendNotification(recipient, subject, body)\<close>.
\<close>

datatype notif_call =
    SendBulk "jsval list" string obj
  | SendOne jsval string string

text \<open>
  Modelled from the spec: the models \<^verbatim>\<open>NGO\<close>, \<^verbatim>\<open>Facility\<close>, \<^verbatim>\<open>User\<close>
  and \<^verbatim>\<open>Activity\<close> and the object-document mapper behind them are not among the
  sources. The specification describes the persistence store as
  ``create/find/update/delete by id or filter''. A collection is the list of its
  documents in insertion order; the store gives every created document a fresh
  \<^verbatim>\<open>_id\<close>. Schema validation by the absent models is not part of this model:
  a write stores the document it is given. The world also records, in order, the
  calls made to the notification service.
\<close>

record world =
  NGO_coll :: "obj list"
  Facility_coll :: "obj list"
  User_coll :: "obj list"
  Activity_coll :: "obj list"
  notif_calls :: "notif_call list"
  next_id :: nat

text \<open>
  The collaborators whose code is outside the module, taken as parameters:
  the store's geo-radius operator \<^verbatim>\<open>$near\<close> (which documents lie within the
  distance of a geometry, nearest first), the outcome of a notification call
  (\<open>None\<close> when it returns, \<open>Some msg\<close> when it raises), file storage, the
  methods of an NGO document, and the clock behind \<^verbatim>\<open>new Date()\<close>.
\<close>

record env =
  geo_near :: "jsval \<Rightarrow> nat \<Rightarrow> obj list \<Rightarrow> obj list"
  sendBulkNotifications :: "jsval list \<Rightarrow> string \<Rightarrow> obj \<Rightarrow> string option"
  sendNotification :: "jsval \<Rightarrow> string \<Rightarrow> string \<Rightarrow> string option"
  uploadFile :: "jsval \<Rightarrow> string \<Rightarrow> string + jsval"
  comparePassword :: "obj \<Rightarrow> jsval \<Rightarrow> bool"
  generateAccessToken :: "obj \<Rightarrow> jsval"
  generateRefreshToken :: "obj \<Rightarrow> jsval"
  now :: jsval
  otp_value :: string

text \<open>\<^verbatim>\<open>Model.create(doc)\<close>: the document with a fresh id, and the next free id.\<close>

definition new_document :: "obj \<Rightarrow> world \<Rightarrow> obj" where
  "new_document doc w = set_prop ''_id'' (JOid (next_id w)) doc"

definition Facility_create :: "obj \<Rightarrow> world \<Rightarrow> obj \<times> world" where
  "Facility_create doc w =
     (let d = new_document doc w
      in (d, w\<lparr>Facility_coll := Facility_coll w @ [d], next_id := Suc (next_id w)\<rparr>))"

text \<open>\<^verbatim>\<open>Facility.find({ ngoId })\<close> and \<^verbatim>\<open>Facility.findOne({ _id, ngoId })\<close>.\<close>

definition Facility_find :: "jsval \<Rightarrow> world \<Rightarrow> obj list" where
  "Facility_find ngoId w = filter (\<lambda>d. get_prop d ''ngoId'' = ngoId) (Facility_coll w)"

definition Facility_findOne :: "jsval \<Rightarrow> jsval \<Rightarrow> world \<Rightarrow> obj option" where
  "Facility_findOne fid ngoId w =
     find (\<lambda>d. get_prop d ''_id'' = fid \<and> get_prop d ''ngoId'' = ngoId) (Facility_coll w)"

text \<open>
  \<^verbatim>\<open>doc.save()\<close> and \<^verbatim>\<open>doc.deleteOne()\<close> address the stored document by the
  id the document was loaded with.
\<close>

definition save_doc :: "jsval \<Rightarrow> obj \<Rightarrow> obj list \<Rightarrow> obj list" where
  "save_doc oid doc coll = map (\<lambda>d. if get_prop d ''_id'' = oid then doc else d) coll"

definition delete_doc :: "jsval \<Rightarrow> obj list \<Rightarrow> obj list" where
  "delete_doc oid coll = filter (\<lambda>d. get_prop d ''_id'' \<noteq> oid) coll"

section \<open>The request\<close>

text \<open>
  \<^verbatim>\<open>req.params\<close>, \<^verbatim>\<open>req.body\<close>, \<^verbatim>\<open>req.ngo\<close> (the authenticated NGO, put
  there by the authentication middleware), \<^verbatim>\<open>req.files\<close> (absent without
  uploads), \<^verbatim>\<open>req.ip\<close> and \<^verbatim>\<open>req.headers\<close>.
\<close>

record request =
  params :: obj
  body :: obj
  ngo :: obj
  files :: "obj option"
  ip :: jsval
  headers :: obj

section \<open>Facility management\<close>

text \<open>The \<^verbatim>\<open>.select("_id email phone")\<close> projection.\<close>

definition select_fields :: "string list \<Rightarrow> obj \<Rightarrow> obj" where
  "select_fields ks d = filter (\<lambda>(k, v). k \<in> set ks) d"

text \<open>
  \<^verbatim>\<open>notificationPreferences: { $elemMatch: { type: "CAMP_ANNOUNCEMENTS", enabled: true } }\<close>
\<close>

definition camp_opt_in :: "jsval \<Rightarrow> bool" where
  "camp_opt_in prefs =
     (case prefs of
        JArr ps \<Rightarrow> list_ex (\<lambda>p. opt_member p ''type'' = JStr ''CAMP_ANNOUNCEMENTS''
                              \<and> opt_member p ''enabled'' = JBool True) ps
      | _ \<Rightarrow> False)"

text \<open>The query of \<^verbatim>\<open>notifyNearbyDonors\<close>: within 10 km, active donor, opted in.\<close>

definition nearbyUsers :: "env \<Rightarrow> obj \<Rightarrow> world \<Rightarrow> jsval list" where
  "nearbyUsers e facility w =
     map (\<lambda>u. JObj (select_fields [''_id'', ''email'', ''phone''] u))
       (filter (\<lambda>u. get_prop u ''donorStatus'' = JStr ''Active''
                    \<and> camp_opt_in (get_prop u ''notificationPreferences''))
          (geo_near e (get_prop facility ''location'') 10000 (User_coll w)))"

definition announcement :: "obj \<Rightarrow> obj" where
  "announcement facility =
     [(''facilityId'', get_prop facility ''_id''),
      (''facilityName'', get_prop facility ''name''),
      (''facilityType'', get_prop facility ''facilityType''),
      (''startDate'', opt_member (get_prop facility ''schedule'') ''startDate''),
      (''location'', get_prop facility ''address'')]"

definition notifyNearbyDonors :: "env \<Rightarrow> obj \<Rightarrow> world \<Rightarrow> (error + unit) \<times> world" where
  "notifyNearbyDonors e facility w =
     (let recipients = nearbyUsers e facility w;
          payload = announcement facility;
          w1 = w\<lparr>notif_calls :=
                   notif_calls w @ [SendBulk recipients ''NEW_FACILITY_ANNOUNCEMENT'' payload]\<rparr>
      in case sendBulkNotifications e recipients ''NEW_FACILITY_ANNOUNCEMENT'' payload of
           Some msg \<Rightarrow> (Inl (ServiceError msg), w1)
         | None \<Rightarrow> (Inr (), w1))"

text \<open>
  The object literal handed to \<^verbatim>\<open>Facility.create\<close>: the spread of the body,
  then \<^verbatim>\<open>ngoId\<close>, \<^verbatim>\<open>facilityType\<close>, \<^verbatim>\<open>status\<close> and \<^verbatim>\<open>location\<close>.
\<close>

definition facility_literal :: "request \<Rightarrow> obj" where
  "facility_literal req =
     set_prop ''location''
       (JObj [(''type'', JStr ''Point''),
              (''coordinates'', JArr [get_prop (body req) ''longitude'', get_prop (body req) ''latitude''])])
       (set_prop ''status''
          (if get_prop (body req) ''type'' = JStr ''CAMP'' then JStr ''PLANNED'' else JStr ''INACTIVE'')
          (set_prop ''facilityType''
             (if get_prop (body req) ''type'' = JStr ''CAMP''
              then FACILITY_TYPE_CAMP else FACILITY_TYPE_CENTER)
             (set_prop ''ngoId'' (get_prop (ngo req) ''_id'') (body req))))"

text \<open>
  The template literal \<^verbatim>\<open>`Facility ${action}d successfully`\<close>. It is reached
  only when the action is one of the four strings \<^verbatim>\<open>update\<close>,
  \<^verbatim>\<open>delete\<close>, \<^verbatim>\<open>suspend\<close>, \<^verbatim>\<open>activate\<close>, whose code units are
  written back as characters.
\<close>

fun done_message :: "jsval \<Rightarrow> string" where
  "done_message (JString a) =
     ''Facility '' @ map (\<lambda>u. char_of (unat u)) a @ ''d successfully''"
| "done_message v = ''Facility d successfully''"

definition manageFacility :: "env \<Rightarrow> request \<Rightarrow> world \<Rightarrow> (error + response) \<times> world" where
  "manageFacility e req w =
     (let action = get_prop (params req) ''action'';
          ngoId = get_prop (ngo req) ''_id''
      in
      if get_prop (ngo req) ''status'' \<noteq> NGO_STATUS_ACTIVE then
        (Inl (ApiError 403 ''NGO must be active to manage facilities''), w)
      else if action = FACILITY_OPERATIONS_CREATE then
        (let (facility, w1) = Facility_create (facility_literal req) w
         in if get_prop facility ''facilityType'' = FACILITY_TYPE_CAMP then
              (case notifyNearbyDonors e facility w1 of
                 (Inl err, w2) \<Rightarrow> (Inl err, w2)
               | (Inr u, w2) \<Rightarrow>
                   (Inr (ApiResponse 201 (JObj facility) ''Facility created successfully''), w2))
            else (Inr (ApiResponse 201 (JObj facility) ''Facility created successfully''), w1))
      else if action = FACILITY_OPERATIONS_LIST then
        (Inr (ApiResponse 200 (JArr (map JObj (Facility_find ngoId w)))
                ''Facilities fetched successfully''), w)
      else
        (case Facility_findOne (get_prop (params req) ''facilityId'') ngoId w of
           None \<Rightarrow> (Inl (ApiError 404 ''Facility not found''), w)
         | Some facility \<Rightarrow>
             if action = FACILITY_OPERATIONS_UPDATE then
               (let f1 = object_assign facility (body req)
                in if hides_save (body req) then
                     (Inl (TypeError ''facility.save is not a function''), w)
                   else
                     (Inr (ApiResponse 200 (JObj f1) (done_message action)),
                      w\<lparr>Facility_coll :=
                           save_doc (get_prop facility ''_id'') f1 (Facility_coll w)\<rparr>))
             else if action = FACILITY_OPERATIONS_DELETE then
               (Inr (ApiResponse 200 (JObj facility) (done_message action)),
                w\<lparr>Facility_coll := delete_doc (get_prop facility ''_id'') (Facility_coll w)\<rparr>)
             else if action = FACILITY_OPERATIONS_SUSPEND \<or> action = FACILITY_OPERATIONS_ACTIVATE then
               (let f1 = set_prop ''status''
                           (if action = FACILITY_OPERATIONS_SUSPEND
                            then JStr ''SUSPENDED'' else JStr ''ACTIVE'') facility
                in (Inr (ApiResponse 200 (JObj f1) (done_message action)),
                    w\<lparr>Facility_coll := save_doc (get_prop facility ''_id'') f1 (Facility_coll w)\<rparr>))
             else (Inl (ApiError 400 ''Invalid operation''), w)))"

section \<open>Registration\<close>

text \<open>
  \<^verbatim>\<open>String.prototype.trim\<close> removes white space and line terminators at both
  ends. These are the code units U+0009 to U+000D, U+0020, U+00A0, U+1680, U+2000 to
  U+200A, U+2028, U+2029, U+202F, U+205F, U+3000 and U+FEFF.
\<close>

definition is_space :: "code_unit \<Rightarrow> bool" where
  "is_space u =
     (u \<in> set [0x0009, 0x000A, 0x000B, 0x000C, 0x000D, 0x0020, 0x00A0, 0x1680,
               0x2000, 0x2001, 0x2002, 0x2003, 0x2004, 0x2005, 0x2006, 0x2007, 0x2008,
               0x2009, 0x200A, 0x2028, 0x2029, 0x202F, 0x205F, 0x3000, 0xFEFF])"

definition trim :: "code_unit list \<Rightarrow> code_unit list" where
  "trim s = rev (dropWhile is_space (rev (dropWhile is_space s)))"

text \<open>
  \<^verbatim>\<open>v?.trim()\<close>: \<^verbatim>\<open>undefined\<close> for a nullish value, the trimmed string for a
  string; any other JSON value has no \<^verbatim>\<open>trim\<close> method and the call raises.
\<close>

fun trim_call :: "jsval \<Rightarrow> error + jsval" where
  "trim_call JUndefined = Inr JUndefined"
| "trim_call JNull = Inr JUndefined"
| "trim_call (JString s) = Inr (JString (trim s))"
| "trim_call v = Inl (TypeError ''trim is not a function'')"

text \<open>\<^verbatim>\<open>!password?.trim() || password.length < 8\<close>\<close>

fun password_rejected :: "jsval \<Rightarrow> error + bool" where
  "password_rejected JUndefined = Inr True"
| "password_rejected JNull = Inr True"
| "password_rejected (JString s) = Inr (trim s = [] \<or> length s < 8)"
| "password_rejected v = Inl (TypeError ''trim is not a function'')"

text \<open>The five validation steps of \<^verbatim>\<open>registerNGO\<close>, in the order of the source.\<close>

definition validateRegistration :: "obj \<Rightarrow> error option" where
  "validateRegistration b =
     (case trim_call (get_prop b ''name'') of
        Inl err \<Rightarrow> Some err
      | Inr n \<Rightarrow>
          if \<not> truthy n then Some (ApiError 400 ''NGO name is required'')
          else
     (case trim_call (get_prop b ''email'') of
        Inl err \<Rightarrow> Some err
      | Inr em \<Rightarrow>
          if \<not> truthy em then Some (ApiError 400 ''Email is required'')
          else
     (case password_rejected (get_prop b ''password'') of
        Inl err \<Rightarrow> Some err
      | Inr bad \<Rightarrow>
          if bad then Some (ApiError 400 ''Password must be at least 8 characters'')
          else if \<not> truthy (opt_member (get_prop b ''contactPerson'') ''name'')
                  \<or> \<not> truthy (opt_member (get_prop b ''contactPerson'') ''phone'')
          then Some (ApiError 400 ''Contact person details required'')
          else
     (case trim_call (get_prop b ''regNumber'') of
        Inl err \<Rightarrow> Some err
      | Inr r \<Rightarrow>
          if \<not> truthy r then Some (ApiError 400 ''Registration number required'')
          else None))))"

text \<open>\<^verbatim>\<open>NGO.findOne({ $or: [{ email }, { regNumber }] })\<close>\<close>

definition NGO_findOne_email_or_regNumber :: "jsval \<Rightarrow> jsval \<Rightarrow> world \<Rightarrow> obj option" where
  "NGO_findOne_email_or_regNumber email regNumber w =
     find (\<lambda>d. get_prop d ''email'' = email \<or> get_prop d ''regNumber'' = regNumber) (NGO_coll w)"

text \<open>\<^verbatim>\<open>req.files[docType][0]\<close> on a truthy value.\<close>

fun index0 :: "jsval \<Rightarrow> jsval" where
  "index0 (JArr (x # xs)) = x"
| "index0 (JString (c # cs)) = JString [c]"
| "index0 v = JUndefined"

text \<open>The loop over \<^verbatim>\<open>allowedDocs\<close>; an upload that raises ends the handler.\<close>

fun upload_documents :: "env \<Rightarrow> obj \<Rightarrow> string list \<Rightarrow> obj \<Rightarrow> error + obj" where
  "upload_documents e fs [] documents = Inr documents"
| "upload_documents e fs (docType # rest) documents =
     (if truthy (get_prop fs docType) then
        (case uploadFile e (index0 (get_prop fs docType)) (''ngo-documents/'' @ docType) of
           Inl msg \<Rightarrow> Inl (ServiceError msg)
         | Inr stored \<Rightarrow> upload_documents e fs rest (set_prop docType stored documents))
      else upload_documents e fs rest documents)"

definition NGO_create :: "obj \<Rightarrow> world \<Rightarrow> obj \<times> world" where
  "NGO_create doc w =
     (let d = new_document doc w
      in (d, w\<lparr>NGO_coll := NGO_coll w @ [d], next_id := Suc (next_id w)\<rparr>))"

definition Activity_create :: "obj \<Rightarrow> world \<Rightarrow> obj \<times> world" where
  "Activity_create doc w =
     (let d = new_document doc w
      in (d, w\<lparr>Activity_coll := Activity_coll w @ [d], next_id := Suc (next_id w)\<rparr>))"

definition ngo_literal :: "request \<Rightarrow> obj \<Rightarrow> obj" where
  "ngo_literal req documents =
     [(''name'', get_prop (body req) ''name''),
      (''email'', get_prop (body req) ''email''),
      (''password'', get_prop (body req) ''password''),
      (''contactPerson'', get_prop (body req) ''contactPerson''),
      (''address'', get_prop (body req) ''address''),
      (''regNumber'', get_prop (body req) ''regNumber''),
      (''facilities'', get_prop (body req) ''facilities''),
      (''organizationType'', get_prop (body req) ''organizationType''),
      (''operatingHours'', get_prop (body req) ''operatingHours''),
      (''documents'', JObj documents),
      (''verificationStatus'', JStr ''PENDING''),
      (''registrationIP'', ip req),
      (''deviceInfo'', get_prop (headers req) ''user-agent'')]"

definition registration_activity :: "env \<Rightarrow> request \<Rightarrow> obj \<Rightarrow> obj" where
  "registration_activity e req n =
     [(''type'', JStr ''NGO_REGISTERED''),
      (''performedBy'', JObj [(''userId'', get_prop n ''_id''), (''userModel'', JStr ''NGO'')]),
      (''details'', JObj [(''ngoId'', get_prop n ''_id''),
                          (''name'', get_prop n ''name''),
                          (''registrationIP'', ip req),
                          (''timestamp'', now e)])]"

definition registration_summary :: "obj \<Rightarrow> jsval" where
  "registration_summary n =
     JObj [(''ngo'', JObj [(''_id'', get_prop n ''_id''),
                           (''name'', get_prop n ''name''),
                           (''email'', get_prop n ''email''),
                           (''status'', get_prop n ''verificationStatus'')])]"

definition registerNGO :: "env \<Rightarrow> request \<Rightarrow> world \<Rightarrow> (error + response) \<times> world" where
  "registerNGO e req w =
     (case validateRegistration (body req) of
        Some err \<Rightarrow> (Inl err, w)
      | None \<Rightarrow>
     (case NGO_findOne_email_or_regNumber
             (get_prop (body req) ''email'') (get_prop (body req) ''regNumber'') w of
        Some existingNGO \<Rightarrow>
          (Inl (ApiError 409
                  (if get_prop existingNGO ''email'' = get_prop (body req) ''email''
                   then ''Email already registered''
                   else ''Registration number already exists'')), w)
      | None \<Rightarrow>
     (case (case files req of
              None \<Rightarrow> Inr []
            | Some fs \<Rightarrow>
                upload_documents e fs [''registrationCert'', ''licenseCert'', ''taxExemptionCert''] [])
      of
        Inl err \<Rightarrow> (Inl err, w)
      | Inr documents \<Rightarrow>
          (let (n, w1) = NGO_create (ngo_literal req documents) w;
               (a, w2) = Activity_create (registration_activity e req n) w1
           in (Inr (ApiResponse 201 (registration_summary n)
                      ''NGO registration submitted for verification''), w2)))))"

section \<open>Login\<close>

definition NGO_findById :: "jsval \<Rightarrow> world \<Rightarrow> obj option" where
  "NGO_findById oid w = find (\<lambda>d. get_prop d ''_id'' = oid) (NGO_coll w)"

definition NGO_findOne_email :: "jsval \<Rightarrow> world \<Rightarrow> obj option" where
  "NGO_findOne_email email w = find (\<lambda>d. get_prop d ''email'' = email) (NGO_coll w)"

text \<open>
  \<^verbatim>\<open>generateTokens(ngoId)\<close> loads its own copy of the document, sets the
  refresh token and the login time on that copy and saves it. A method call on
  the \<^verbatim>\<open>null\<close> of a failed lookup raises.
\<close>

definition generateTokens :: "env \<Rightarrow> jsval \<Rightarrow> world \<Rightarrow> (error + jsval \<times> jsval) \<times> world" where
  "generateTokens e ngoId w =
     (case NGO_findById ngoId w of
        None \<Rightarrow> (Inl (TypeError ''Cannot read properties of null''), w)
      | Some n \<Rightarrow>
          (let accessToken = generateAccessToken e n;
               refreshToken = generateRefreshToken e n;
               n1 = set_prop ''lastLogin'' (now e) (set_prop ''refreshToken'' refreshToken n)
           in (Inr (accessToken, refreshToken),
               w\<lparr>NGO_coll := save_doc (get_prop n ''_id'') n1 (NGO_coll w)\<rparr>)))"

definition loginNGO :: "env \<Rightarrow> request \<Rightarrow> world \<Rightarrow> (error + response) \<times> world" where
  "loginNGO e req w =
     (let email = get_prop (body req) ''email'';
          password = get_prop (body req) ''password''
      in
      if \<not> truthy email \<or> \<not> truthy password then
        (Inl (ApiError 400 ''Email and password are required''), w)
      else
        (case NGO_findOne_email email w of
           None \<Rightarrow> (Inl (ApiError 404 ''NGO not found''), w)
         | Some n \<Rightarrow>
             if \<not> comparePassword e n password then
               (Inl (ApiError 401 ''Invalid credentials''), w)
             else
               (case generateTokens e (get_prop n ''_id'') w of
                  (Inl err, w1) \<Rightarrow> (Inl err, w1)
                | (Inr (accessToken, refreshToken), w1) \<Rightarrow>
                    (Inr (ApiResponse 200
                            (JObj [(''ngo'', JObj n),
                                   (''accessToken'', accessToken),
                                   (''refreshToken'', refreshToken)])
                            ''Login successful''), w1))))"

section \<open>Resending the verification code\<close>

text \<open>
  The names the module binds at its top level: its imports (lines 1 to 15) and its
  \<^verbatim>\<open>const\<close> declarations; and the names in scope inside the handler
  \<^verbatim>\<open>resendVerificationOtp\<close>. The module is an ECMAScript module, hence strict
  code: evaluating an identifier that no enclosing scope binds raises a
  \<^verbatim>\<open>ReferenceError\<close>. The host's global object is taken to hold only the
  language's own names.
\<close>

definition module_bindings :: "string list" where
  "module_bindings =
     [''mongoose'', ''NGO'', ''Facility'', ''FACILITY_TYPE'', ''BloodRequest'', ''Activity'',
      ''Notification'', ''User'', ''asyncHandler'', ''ApiError'', ''ApiResponse'', ''uploadFile'',
      ''notificationService'', ''NGO_STATUS'', ''FACILITY_OPERATIONS'', ''generateTokens'',
      ''registerNGO'', ''loginNGO'', ''logoutNGO'', ''changePassword'', ''getNGOProfile'',
      ''updateNGOProfile'', ''manageFacility'', ''handleBloodRequest'', ''updateBloodInventory'',
      ''getConnectedHospitals'', ''respondToConnectionRequest'', ''getNGOAnalytics'',
      ''notifyNearbyDonors'', ''resendVerificationOtp'']"

definition resend_bindings :: "string list" where
  "resend_bindings = [''req'', ''res'', ''ngoId'', ''ngo'', ''otp'']"

definition resolve :: "string list \<Rightarrow> string \<Rightarrow> error + unit" where
  "resolve scope x = (if x \<in> set scope then Inr () else Inl (ReferenceError x))"

text \<open>
  After the status check the handler calls \<^verbatim>\<open>generateOtp()\<close>. Were the name
  bound, the call would yield a code (\<^const>\<open>otp_value\<close>), which the handler
  stores on the document, saves and sends.
\<close>

definition resendVerificationOtp :: "env \<Rightarrow> request \<Rightarrow> world \<Rightarrow> (error + response) \<times> world" where
  "resendVerificationOtp e req w =
     (case NGO_findById (get_prop (ngo req) ''_id'') w of
        None \<Rightarrow> (Inl (ApiError 404 ''NGO not found''), w)
      | Some n \<Rightarrow>
          if get_prop n ''verificationStatus'' \<noteq> NGO_STATUS_PENDING then
            (Inl (ApiError 400 ''Verification already completed or not pending''), w)
          else
            (case resolve (resend_bindings @ module_bindings) ''generateOtp'' of
               Inl err \<Rightarrow> (Inl err, w)
             | Inr u \<Rightarrow>
                 (let otp = otp_value e;
                      n1 = set_prop ''verificationOtp'' (JStr otp) n;
                      w1 = w\<lparr>NGO_coll := save_doc (get_prop n ''_id'') n1 (NGO_coll w)\<rparr>;
                      w2 = w1\<lparr>notif_calls := notif_calls w1 @
                                [SendOne (get_prop n1 ''email'') ''Verification OTP''
                                   (''Your OTP is '' @ otp)]\<rparr>
                  in case sendNotification e (get_prop n1 ''email'') ''Verification OTP''
                            (''Your OTP is '' @ otp) of
                       Some msg \<Rightarrow> (Inl (ServiceError msg), w2)
                     | None \<Rightarrow>
                         (Inr (ApiResponse 200 (JObj [])
                                 ''Verification OTP resent successfully''), w2))))"

section \<open>Concrete collaborators, worlds and requests\<close>

text \<open>
  A notification service that delivers, and one that raises; a store with an
  active and a pending NGO, one facility of the pending NGO and one donor who
  opted in to camp announcements.
\<close>

definition ex_env :: env where
  "ex_env = \<lparr>geo_near = (\<lambda>g r us. us),
             sendBulkNotifications = (\<lambda>r t p. None),
             sendNotification = (\<lambda>r s b. None),
             uploadFile = (\<lambda>f d. Inr (JStr d)),
             comparePassword = (\<lambda>n p. get_prop n ''password'' = p),
             generateAccessToken = (\<lambda>n. JStr ''access-new''),
             generateRefreshToken = (\<lambda>n. JStr ''refresh-new''),
             now = JNum 1000,
             otp_value = ''123456''\<rparr>"

definition ex_env_down :: env where
  "ex_env_down = ex_env\<lparr>sendBulkNotifications := (\<lambda>r t p. Some ''service unavailable'')\<rparr>"

definition ex_ngo1 :: obj where
  "ex_ngo1 = [(''_id'', JOid 1), (''name'', JStr ''Helping Hands''), (''email'', JStr ''a@b.org''),
              (''password'', JStr ''longenough1''), (''regNumber'', JStr ''R-1''),
              (''verificationStatus'', JStr ''ACTIVE''), (''refreshToken'', JStr ''refresh-old'')]"

definition ex_ngo2 :: obj where
  "ex_ngo2 = [(''_id'', JOid 2), (''name'', JStr ''Red Drop''), (''email'', JStr ''c@d.org''),
              (''password'', JStr ''longenough2''), (''regNumber'', JStr ''R-2''),
              (''verificationStatus'', JStr ''PENDING''), (''refreshToken'', JNull)]"

definition ex_facility :: obj where
  "ex_facility = [(''_id'', JOid 10), (''name'', JStr ''City Center''), (''ngoId'', JOid 2),
                  (''facilityType'', JStr ''CENTER''), (''status'', JStr ''INACTIVE'')]"

definition ex_donor :: obj where
  "ex_donor = [(''_id'', JOid 20), (''email'', JStr ''d@e.org''), (''phone'', JStr ''555''),
               (''donorStatus'', JStr ''Active''),
               (''notificationPreferences'',
                  JArr [JObj [(''type'', JStr ''CAMP_ANNOUNCEMENTS''), (''enabled'', JBool True)]])]"

definition ex_world :: world where
  "ex_world = \<lparr>NGO_coll = [ex_ngo1, ex_ngo2], Facility_coll = [ex_facility],
               User_coll = [ex_donor], Activity_coll = [], notif_calls = [], next_id = 100\<rparr>"

definition ex_request :: "obj \<Rightarrow> obj \<Rightarrow> obj \<Rightarrow> request" where
  "ex_request ps b n = \<lparr>params = ps, body = b, ngo = n, files = None,
                        ip = JStr ''10.0.0.1'', headers = []\<rparr>"

definition ex_active_ngo :: obj where
  "ex_active_ngo = [(''_id'', JOid 1), (''status'', JStr ''ACTIVE'')]"

definition ex_pending_ngo :: obj where
  "ex_pending_ngo = [(''_id'', JOid 2), (''status'', JStr ''PENDING'')]"

text \<open>
  A camp request that also carries its own \<^verbatim>\<open>facilityType\<close> and
  \<^verbatim>\<open>status\<close>, and a request without a \<^verbatim>\<open>type\<close>.
\<close>

definition ex_camp_body :: obj where
  "ex_camp_body = [(''name'', JStr ''Camp A''), (''type'', JStr ''CAMP''),
                   (''facilityType'', JStr ''CENTER''), (''status'', JStr ''ACTIVE''),
                   (''longitude'', JNum 77), (''latitude'', JNum 28)]"

definition ex_center_body :: obj where
  "ex_center_body = [(''name'', JStr ''Center B''), (''longitude'', JNum 77), (''latitude'', JNum 28)]"

definition ex_registration :: "string \<Rightarrow> string \<Rightarrow> obj" where
  "ex_registration email password =
     [(''name'', JStr ''Helping Hands''), (''email'', JStr email), (''password'', JStr password),
      (''contactPerson'', JObj [(''name'', JStr ''X''), (''phone'', JStr ''123'')]),
      (''regNumber'', JStr ''R-9'')]"

definition ex_suspended_ngo :: obj where
  "ex_suspended_ngo = [(''_id'', JOid 3), (''status'', JStr ''SUSPENDED'')]"

definition ex_create_camp :: request where
  "ex_create_camp = ex_request [(''action'', JStr ''create'')] ex_camp_body ex_active_ngo"

definition ex_create_center :: request where
  "ex_create_center = ex_request [(''action'', JStr ''create'')] ex_center_body ex_active_ngo"

definition ex_camp_stored :: obj where
  "ex_camp_stored =
     [(''name'', JStr ''Camp A''), (''type'', JStr ''CAMP''), (''facilityType'', JStr ''CAMP''),
      (''status'', JStr ''PLANNED''), (''longitude'', JNum 77), (''latitude'', JNum 28),
      (''ngoId'', JOid 1),
      (''location'', JObj [(''type'', JStr ''Point''), (''coordinates'', JArr [JNum 77, JNum 28])]),
      (''_id'', JOid 100)]"

definition ex_camp_call :: notif_call where
  "ex_camp_call =
     SendBulk [JObj [(''_id'', JOid 20), (''email'', JStr ''d@e.org''), (''phone'', JStr ''555'')]]
       ''NEW_FACILITY_ANNOUNCEMENT''
       [(''facilityId'', JOid 100), (''facilityName'', JStr ''Camp A''),
        (''facilityType'', JStr ''CAMP''), (''startDate'', JUndefined),
        (''location'', JUndefined)]"

text \<open>
  A store whose \<^verbatim>\<open>$near\<close> finds the documents located at the very point of the
  geometry, and four donors: one elsewhere, one not active, one who qualifies and one
  who switched camp announcements off.
\<close>

definition ex_env_near :: env where
  "ex_env_near =
     ex_env\<lparr>geo_near :=
       (\<lambda>g r us. filter (\<lambda>u. opt_member (get_prop u ''address'') ''location'' = g) us)\<rparr>"

definition ex_point :: "real \<Rightarrow> real \<Rightarrow> jsval" where
  "ex_point lon lat =
     JObj [(''type'', JStr ''Point''), (''coordinates'', JArr [JNum lon, JNum lat])]"

definition ex_donor_far :: obj where
  "ex_donor_far =
     [(''_id'', JOid 21), (''email'', JStr ''far@e.org''), (''phone'', JStr ''551''),
      (''address'', JObj [(''location'', ex_point 10 10)]),
      (''donorStatus'', JStr ''Active''),
      (''notificationPreferences'',
         JArr [JObj [(''type'', JStr ''CAMP_ANNOUNCEMENTS''), (''enabled'', JBool True)]])]"

definition ex_donor_inactive :: obj where
  "ex_donor_inactive =
     [(''_id'', JOid 22), (''email'', JStr ''idle@e.org''), (''phone'', JStr ''552''),
      (''address'', JObj [(''location'', ex_point 77 28)]),
      (''donorStatus'', JStr ''Inactive''),
      (''notificationPreferences'',
         JArr [JObj [(''type'', JStr ''CAMP_ANNOUNCEMENTS''), (''enabled'', JBool True)]])]"

definition ex_donor_near :: obj where
  "ex_donor_near =
     [(''_id'', JOid 23), (''email'', JStr ''near@e.org''), (''phone'', JStr ''553''),
      (''address'', JObj [(''location'', ex_point 77 28)]),
      (''donorStatus'', JStr ''Active''),
      (''notificationPreferences'',
         JArr [JObj [(''type'', JStr ''URGENT_REQUESTS''), (''enabled'', JBool True)],
               JObj [(''type'', JStr ''CAMP_ANNOUNCEMENTS''), (''enabled'', JBool True)]])]"

definition ex_donor_opted_out :: obj where
  "ex_donor_opted_out =
     [(''_id'', JOid 24), (''email'', JStr ''quiet@e.org''), (''phone'', JStr ''554''),
      (''address'', JObj [(''location'', ex_point 77 28)]),
      (''donorStatus'', JStr ''Active''),
      (''notificationPreferences'',
         JArr [JObj [(''type'', JStr ''CAMP_ANNOUNCEMENTS''), (''enabled'', JBool False)],
               JObj [(''type'', JStr ''URGENT_REQUESTS''), (''enabled'', JBool True)]])]"

definition ex_world_donors :: world where
  "ex_world_donors =
     ex_world\<lparr>User_coll :=
       [ex_donor_far, ex_donor_inactive, ex_donor_near, ex_donor_opted_out]\<rparr>"

definition ex_camp_call_near :: notif_call where
  "ex_camp_call_near =
     SendBulk [JObj [(''_id'', JOid 23), (''email'', JStr ''near@e.org''), (''phone'', JStr ''553'')]]
       ''NEW_FACILITY_ANNOUNCEMENT''
       [(''facilityId'', JOid 100), (''facilityName'', JStr ''Camp A''),
        (''facilityType'', JStr ''CAMP''), (''startDate'', JUndefined),
        (''location'', JUndefined)]"

text \<open>A name made of a no-break space, an ideographic space and a byte order mark.\<close>

definition ex_register_blank :: request where
  "ex_register_blank =
     ex_request []
       (AList.update ''name'' (JString [0x00A0, 0x3000, 0xFEFF])
          (ex_registration ''a@b.org'' ''longenough9'')) []"

definition ex_archive :: request where
  "ex_archive = ex_request [(''action'', JStr ''archive''), (''facilityId'', JOid 10)] [] ex_active_ngo"

definition ex_archive_own :: request where
  "ex_archive_own = ex_request [(''action'', JStr ''archive''), (''facilityId'', JOid 10)] []
                      [(''_id'', JOid 2), (''status'', JStr ''ACTIVE'')]"

definition ex_register_short :: request where
  "ex_register_short = ex_request [] (ex_registration ''a@b.org'' ''short'') []"

definition ex_register_dup :: request where
  "ex_register_dup = ex_request [] (ex_registration ''a@b.org'' ''longenough9'') []"

definition ex_login :: request where
  "ex_login = ex_request [] [(''email'', JStr ''a@b.org''), (''password'', JStr ''longenough1'')] []"

definition ex_ngo1_logged_in :: obj where
  "ex_ngo1_logged_in =
     [(''_id'', JOid 1), (''name'', JStr ''Helping Hands''), (''email'', JStr ''a@b.org''),
      (''password'', JStr ''longenough1''), (''regNumber'', JStr ''R-1''),
      (''verificationStatus'', JStr ''ACTIVE''), (''refreshToken'', JStr ''refresh-new''),
      (''lastLogin'', JNum 1000)]"

definition ex_login_response :: response where
  "ex_login_response =
     ApiResponse 200
       (JObj [(''ngo'', JObj ex_ngo1), (''accessToken'', JStr ''access-new''),
              (''refreshToken'', JStr ''refresh-new'')])
       ''Login successful''"

definition ex_register_new :: request where
  "ex_register_new = ex_request [] (ex_registration ''x@y.org'' ''longenough9'') []"

definition ex_ngo3 :: obj where
  "ex_ngo3 =
     [(''name'', JStr ''Helping Hands''), (''email'', JStr ''x@y.org''),
      (''password'', JStr ''longenough9''),
      (''contactPerson'', JObj [(''name'', JStr ''X''), (''phone'', JStr ''123'')]),
      (''address'', JUndefined), (''regNumber'', JStr ''R-9''), (''facilities'', JUndefined),
      (''organizationType'', JUndefined), (''operatingHours'', JUndefined),
      (''documents'', JObj []), (''verificationStatus'', JStr ''PENDING''),
      (''registrationIP'', JStr ''10.0.0.1''), (''deviceInfo'', JUndefined), (''_id'', JOid 100)]"

definition ex_activity :: obj where
  "ex_activity =
     [(''type'', JStr ''NGO_REGISTERED''),
      (''performedBy'', JObj [(''userId'', JOid 100), (''userModel'', JStr ''NGO'')]),
      (''details'', JObj [(''ngoId'', JOid 100), (''name'', JStr ''Helping Hands''),
                          (''registrationIP'', JStr ''10.0.0.1''), (''timestamp'', JNum 1000)]),
      (''_id'', JOid 101)]"

definition ex_register_response :: response where
  "ex_register_response =
     ApiResponse 201
       (JObj [(''ngo'', JObj [(''_id'', JOid 100), (''name'', JStr ''Helping Hands''),
                              (''email'', JStr ''x@y.org''), (''status'', JStr ''PENDING'')])])
       ''NGO registration submitted for verification''"

section \<open>Auxiliary facts\<close>

lemmas constant_defs = NGO_STATUS_PENDING_def NGO_STATUS_ACTIVE_def FACILITY_OPERATIONS_CREATE_def
  FACILITY_OPERATIONS_UPDATE_def FACILITY_OPERATIONS_DELETE_def FACILITY_OPERATIONS_SUSPEND_def
  FACILITY_OPERATIONS_ACTIVATE_def FACILITY_OPERATIONS_LIST_def FACILITY_TYPE_CAMP_def
  FACILITY_TYPE_CENTER_def

lemmas example_defs = ex_env_def ex_env_down_def ex_ngo1_def ex_ngo2_def ex_facility_def
  ex_donor_def ex_world_def ex_request_def ex_active_ngo_def ex_pending_ngo_def
  ex_camp_body_def ex_center_body_def ex_registration_def

lemmas handler_defs = manageFacility_def Facility_create_def Facility_findOne_def Facility_find_def
  new_document_def facility_literal_def notifyNearbyDonors_def nearbyUsers_def announcement_def
  select_fields_def camp_opt_in_def get_prop_def set_prop_def save_doc_def delete_doc_def

lemma get_set_prop_same: "get_prop (set_prop k v ob) k = v"
  by (simp add: get_prop_def set_prop_def update_conv')

lemma get_set_prop_other: "k' \<noteq> k \<Longrightarrow> get_prop (set_prop k v ob) k' = get_prop ob k'"
  by (simp add: get_prop_def set_prop_def update_conv')

lemma created_facilityType:
  "get_prop (new_document (facility_literal req) w) ''facilityType'' =
     (if get_prop (body req) ''type'' = JStr ''CAMP'' then FACILITY_TYPE_CAMP else FACILITY_TYPE_CENTER)"
  by (simp add: new_document_def facility_literal_def get_set_prop_same get_set_prop_other)

lemma created_status:
  "get_prop (new_document (facility_literal req) w) ''status'' =
     (if get_prop (body req) ''type'' = JStr ''CAMP'' then JStr ''PLANNED'' else JStr ''INACTIVE'')"
  by (simp add: new_document_def facility_literal_def get_set_prop_same get_set_prop_other)

text \<open>The create branch of the handler, for an active NGO, in one equation.\<close>

lemma manageFacility_create:
  assumes "get_prop (ngo req) ''status'' = NGO_STATUS_ACTIVE"
    and "get_prop (params req) ''action'' = FACILITY_OPERATIONS_CREATE"
  shows "manageFacility e req w =
    (let f = new_document (facility_literal req) w;
         w1 = w\<lparr>Facility_coll := Facility_coll w @ [f], next_id := Suc (next_id w)\<rparr>
     in if get_prop (body req) ''type'' = JStr ''CAMP'' then
          (case sendBulkNotifications e (nearbyUsers e f w) ''NEW_FACILITY_ANNOUNCEMENT''
                  (announcement f) of
             Some msg \<Rightarrow> Inl (ServiceError msg)
           | None \<Rightarrow> Inr (ApiResponse 201 (JObj f) ''Facility created successfully''),
           w1\<lparr>notif_calls := notif_calls w @
                 [SendBulk (nearbyUsers e f w) ''NEW_FACILITY_ANNOUNCEMENT'' (announcement f)]\<rparr>)
        else (Inr (ApiResponse 201 (JObj f) ''Facility created successfully''), w1))"
proof -
  let ?f = "new_document (facility_literal req) w"
  let ?w1 = "w\<lparr>Facility_coll := Facility_coll w @ [?f], next_id := Suc (next_id w)\<rparr>"
  have fc: "Facility_create (facility_literal req) w = (?f, ?w1)"
    by (simp add: Facility_create_def Let_def)
  have nu: "nearbyUsers e ?f ?w1 = nearbyUsers e ?f w"
    by (simp add: nearbyUsers_def)
  have nt: "notifyNearbyDonors e ?f ?w1 =
      (case sendBulkNotifications e (nearbyUsers e ?f w) ''NEW_FACILITY_ANNOUNCEMENT''
                  (announcement ?f) of
             Some msg \<Rightarrow> Inl (ServiceError msg) | None \<Rightarrow> Inr (),
       ?w1\<lparr>notif_calls := notif_calls w @
                 [SendBulk (nearbyUsers e ?f w) ''NEW_FACILITY_ANNOUNCEMENT'' (announcement ?f)]\<rparr>)"
    by (simp add: notifyNearbyDonors_def Let_def nu split: option.split)
  have ty: "(get_prop ?f ''facilityType'' = FACILITY_TYPE_CAMP) = (get_prop (body req) ''type'' = JStr ''CAMP'')"
    by (simp add: created_facilityType FACILITY_TYPE_CAMP_def FACILITY_TYPE_CENTER_def)
  show ?thesis
    unfolding manageFacility_def Let_def fc
    using assms by (simp add: nt ty split: option.split)
qed


lemma manageFacility_inactive:
  assumes "get_prop (ngo req) ''status'' \<noteq> NGO_STATUS_ACTIVE"
  shows "manageFacility e req w =
           (Inl (ApiError 403 ''NGO must be active to manage facilities''), w)"
  using assms by (simp add: manageFacility_def Let_def)

lemma Facility_findOne_None:
  "(Facility_findOne fid ngoId w = None) =
     (\<forall>d \<in> set (Facility_coll w). get_prop d ''_id'' = fid \<longrightarrow> get_prop d ''ngoId'' \<noteq> ngoId)"
  by (auto simp: Facility_findOne_def find_None_iff)

lemma manageFacility_lookup_fails:
  assumes "get_prop (ngo req) ''status'' = NGO_STATUS_ACTIVE"
    and "get_prop (params req) ''action'' \<noteq> FACILITY_OPERATIONS_CREATE"
    and "get_prop (params req) ''action'' \<noteq> FACILITY_OPERATIONS_LIST"
    and "Facility_findOne (get_prop (params req) ''facilityId'') (get_prop (ngo req) ''_id'') w = None"
  shows "manageFacility e req w = (Inl (ApiError 404 ''Facility not found''), w)"
  using assms by (simp add: manageFacility_def Let_def)

lemma manageFacility_default:
  assumes "get_prop (ngo req) ''status'' = NGO_STATUS_ACTIVE"
    and "get_prop (params req) ''action'' \<notin>
           {FACILITY_OPERATIONS_CREATE, FACILITY_OPERATIONS_UPDATE, FACILITY_OPERATIONS_DELETE,
            FACILITY_OPERATIONS_SUSPEND, FACILITY_OPERATIONS_ACTIVATE, FACILITY_OPERATIONS_LIST}"
    and "Facility_findOne (get_prop (params req) ''facilityId'') (get_prop (ngo req) ''_id'') w = Some f"
  shows "manageFacility e req w = (Inl (ApiError 400 ''Invalid operation''), w)"
  using assms by (simp add: manageFacility_def Let_def)

lemmas account_defs = registerNGO_def validateRegistration_def NGO_findOne_email_or_regNumber_def
  NGO_create_def Activity_create_def ngo_literal_def registration_activity_def
  registration_summary_def loginNGO_def generateTokens_def NGO_findById_def NGO_findOne_email_def
  resendVerificationOtp_def resolve_def module_bindings_def resend_bindings_def trim_def
  is_space_def new_document_def get_prop_def set_prop_def save_doc_def

lemma manageFacility_create_success:
  assumes "manageFacility e req w = (Inr resp, w')"
    and "get_prop (params req) ''action'' = FACILITY_OPERATIONS_CREATE"
  shows "data resp = JObj (new_document (facility_literal req) w)
         \<and> Facility_coll w' = Facility_coll w @ [new_document (facility_literal req) w]
         \<and> (get_prop (new_document (facility_literal req) w) ''facilityType''
               = FACILITY_TYPE_CAMP
              \<or> get_prop (new_document (facility_literal req) w) ''facilityType''
                  = FACILITY_TYPE_CENTER)
         \<and> (get_prop (new_document (facility_literal req) w) ''facilityType''
               = FACILITY_TYPE_CAMP \<longrightarrow>
              notif_calls w' = notif_calls w @
                [SendBulk (nearbyUsers e (new_document (facility_literal req) w) w)
                   ''NEW_FACILITY_ANNOUNCEMENT''
                   (announcement (new_document (facility_literal req) w))])
         \<and> (get_prop (new_document (facility_literal req) w) ''facilityType''
               = FACILITY_TYPE_CENTER \<longrightarrow>
              notif_calls w' = notif_calls w)"
proof -
  let ?f = "new_document (facility_literal req) w"
  have active: "get_prop (ngo req) ''status'' = NGO_STATUS_ACTIVE"
  proof (rule ccontr)
    assume "get_prop (ngo req) ''status'' \<noteq> NGO_STATUS_ACTIVE"
    from manageFacility_inactive [OF this, of e w] assms(1) show False by simp
  qed
  note eq = manageFacility_create [OF active assms(2), of e w]
  let ?calls = "notif_calls w @
                  [SendBulk (nearbyUsers e ?f w) ''NEW_FACILITY_ANNOUNCEMENT'' (announcement ?f)]"
  let ?w1 = "w\<lparr>Facility_coll := Facility_coll w @ [?f], next_id := Suc (next_id w)\<rparr>"
  let ?ok = "ApiResponse 201 (JObj ?f) ''Facility created successfully''"
  have ne: "FACILITY_TYPE_CENTER \<noteq> FACILITY_TYPE_CAMP"
    by (simp add: FACILITY_TYPE_CENTER_def FACILITY_TYPE_CAMP_def)
  show ?thesis
  proof (cases "get_prop (body req) ''type'' = JStr ''CAMP''")
    case True
    then have ty: "get_prop ?f ''facilityType'' = FACILITY_TYPE_CAMP"
      by (simp add: created_facilityType)
    have "manageFacility e req w =
            (case sendBulkNotifications e (nearbyUsers e ?f w) ''NEW_FACILITY_ANNOUNCEMENT''
                    (announcement ?f) of
               Some msg \<Rightarrow> Inl (ServiceError msg) | None \<Rightarrow> Inr ?ok,
             ?w1\<lparr>notif_calls := ?calls\<rparr>)"
      unfolding eq Let_def using True by simp
    then have r: "Inr resp =
            (case sendBulkNotifications e (nearbyUsers e ?f w) ''NEW_FACILITY_ANNOUNCEMENT''
                    (announcement ?f) of
               Some msg \<Rightarrow> Inl (ServiceError msg) | None \<Rightarrow> Inr ?ok)"
      and w': "w' = ?w1\<lparr>notif_calls := ?calls\<rparr>"
      unfolding assms(1) by simp_all
    from r have "resp = ?ok"
      by (cases "sendBulkNotifications e (nearbyUsers e ?f w) ''NEW_FACILITY_ANNOUNCEMENT''
                    (announcement ?f)") simp_all
    then have "data resp = JObj ?f" by simp
    moreover from w' have "Facility_coll w' = Facility_coll w @ [?f]" by simp
    moreover from w' have "notif_calls w' = ?calls" by simp
    ultimately show ?thesis using ty ne by simp
  next
    case False
    then have ty: "get_prop ?f ''facilityType'' = FACILITY_TYPE_CENTER"
      by (simp add: created_facilityType)
    have "manageFacility e req w = (Inr ?ok, ?w1)"
      unfolding eq Let_def using False by simp
    then have r: "resp = ?ok" and w': "w' = ?w1"
      unfolding assms(1) by simp_all
    from r have "data resp = JObj ?f" by simp
    moreover from w' have "Facility_coll w' = Facility_coll w @ [?f]" by simp
    moreover from w' have "notif_calls w' = notif_calls w" by simp
    ultimately show ?thesis using ty ne by simp
  qed
qed

lemma camp_opt_in_iff:
  "camp_opt_in prefs =
     (\<exists>ps. prefs = JArr ps
        \<and> (\<exists>p \<in> set ps. opt_member p ''type'' = JStr ''CAMP_ANNOUNCEMENTS''
                          \<and> opt_member p ''enabled'' = JBool True))"
  by (cases prefs) (simp_all add: camp_opt_in_def list_ex_iff)

lemma select_fields_contact:
  "select_fields [''_id'', ''email'', ''phone''] u =
     filter (\<lambda>(k, v). k = ''_id'' \<or> k = ''email'' \<or> k = ''phone'') u"
  unfolding select_fields_def by (rule filter_cong) auto

lemma nearbyUsers_selection:
  "nearbyUsers e f w =
     map (\<lambda>u. JObj (filter (\<lambda>(k, v). k = ''_id'' \<or> k = ''email'' \<or> k = ''phone'') u))
       (filter (\<lambda>u. get_prop u ''donorStatus'' = JStr ''Active''
                    \<and> (\<exists>ps. get_prop u ''notificationPreferences'' = JArr ps
                          \<and> (\<exists>p \<in> set ps.
                                opt_member p ''type'' = JStr ''CAMP_ANNOUNCEMENTS''
                                \<and> opt_member p ''enabled'' = JBool True)))
          (geo_near e (get_prop f ''location'') 10000 (User_coll w)))"
  by (simp add: nearbyUsers_def select_fields_contact camp_opt_in_iff)

lemma created_location:
  "get_prop (new_document (facility_literal req) w) ''location'' =
     JObj [(''type'', JStr ''Point''),
           (''coordinates'', JArr [get_prop (body req) ''longitude'',
                                   get_prop (body req) ''latitude''])]"
  by (simp add: new_document_def facility_literal_def get_set_prop_same get_set_prop_other)

lemma ex_create_camp_donors_run:
  "manageFacility ex_env_near ex_create_camp ex_world_donors =
     (Inr (ApiResponse 201 (JObj ex_camp_stored) ''Facility created successfully''),
      ex_world_donors\<lparr>Facility_coll := [ex_facility, ex_camp_stored], next_id := 101,
                       notif_calls := [ex_camp_call_near]\<rparr>)"
  by (simp add: handler_defs example_defs constant_defs ex_create_camp_def ex_camp_stored_def
      ex_camp_call_near_def ex_env_near_def ex_world_donors_def ex_donor_far_def
      ex_donor_inactive_def ex_donor_near_def ex_donor_opted_out_def ex_point_def Let_def)

text \<open>The update branch: a plain body is merged and saved, a body with a \<^verbatim>\<open>save\<close> entry makes the call of the method raise.\<close>

lemma update_merges_and_saves:
  "manageFacility ex_env
     (ex_request [(''action'', JStr ''update''), (''facilityId'', JOid 10)]
        [(''name'', JStr ''Renamed'')] [(''_id'', JOid 2), (''status'', JStr ''ACTIVE'')])
     ex_world
   = (Inr (ApiResponse 200
             (JObj [(''_id'', JOid 10), (''name'', JStr ''Renamed''), (''ngoId'', JOid 2),
                    (''facilityType'', JStr ''CENTER''), (''status'', JStr ''INACTIVE'')])
             ''Facility updated successfully''),
      ex_world\<lparr>Facility_coll :=
        [[(''_id'', JOid 10), (''name'', JStr ''Renamed''), (''ngoId'', JOid 2),
          (''facilityType'', JStr ''CENTER''), (''status'', JStr ''INACTIVE'')]]\<rparr>)"
  by (simp add: handler_defs example_defs constant_defs object_assign_def hides_save_def
      char_of_def bit_Suc_0_iff Let_def)

lemma update_with_save_entry_raises:
  "manageFacility ex_env
     (ex_request [(''action'', JStr ''update''), (''facilityId'', JOid 10)]
        [(''name'', JStr ''Renamed''), (''save'', JBool True)]
        [(''_id'', JOid 2), (''status'', JStr ''ACTIVE'')])
     ex_world
   = (Inl (TypeError ''facility.save is not a function''), ex_world)"
  by (simp add: handler_defs example_defs constant_defs object_assign_def hides_save_def Let_def)

lemma find_Some_ex: "\<exists>x \<in> set xs. P x \<Longrightarrow> \<exists>y. find P xs = Some y"
  by (cases "find P xs") (auto simp: find_None_iff)

lemma generateOtp_unbound:
  "resolve (resend_bindings @ module_bindings) ''generateOtp'' = Inl (ReferenceError ''generateOtp'')"
  by (simp add: resolve_def resend_bindings_def module_bindings_def)

lemma find_Some_mem: "find P xs = Some x \<Longrightarrow> x \<in> set xs"
  by (auto simp: find_Some_iff)

lemma loginNGO_success:
  assumes "loginNGO e req w = (Inr resp, w')"
  shows "\<exists>n m. NGO_findOne_email (get_prop (body req) ''email'') w = Some n
           \<and> n \<in> set (NGO_coll w)
           \<and> NGO_findById (get_prop n ''_id'') w = Some m
           \<and> data resp = JObj [(''ngo'', JObj n),
                                (''accessToken'', generateAccessToken e m),
                                (''refreshToken'', generateRefreshToken e m)]
           \<and> NGO_coll w' =
               save_doc (get_prop m ''_id'')
                 (set_prop ''lastLogin'' (now e)
                    (set_prop ''refreshToken'' (generateRefreshToken e m) m))
                 (NGO_coll w)"
proof -
  let ?email = "get_prop (body req) ''email''"
  from assms obtain n where n: "NGO_findOne_email ?email w = Some n"
    by (cases "NGO_findOne_email ?email w") (simp_all add: loginNGO_def Let_def split: if_splits)
  then have mem: "n \<in> set (NGO_coll w)"
    unfolding NGO_findOne_email_def by (rule find_Some_mem)
  from assms n have gt: "(case generateTokens e (get_prop n ''_id'') w of
                  (Inl err, w1) \<Rightarrow> (Inl err, w1)
                | (Inr (accessToken, refreshToken), w1) \<Rightarrow>
                    (Inr (ApiResponse 200
                            (JObj [(''ngo'', JObj n),
                                   (''accessToken'', accessToken),
                                   (''refreshToken'', refreshToken)])
                            ''Login successful''), w1)) = (Inr resp, w')"
    by (simp add: loginNGO_def Let_def split: if_splits)
  then obtain m where m: "NGO_findById (get_prop n ''_id'') w = Some m"
    by (cases "NGO_findById (get_prop n ''_id'') w") (simp_all add: generateTokens_def)
  from gt m have "resp = ApiResponse 200
                            (JObj [(''ngo'', JObj n),
                                   (''accessToken'', generateAccessToken e m),
                                   (''refreshToken'', generateRefreshToken e m)])
                            ''Login successful''"
    and "w' = w\<lparr>NGO_coll := save_doc (get_prop m ''_id'')
                 (set_prop ''lastLogin'' (now e)
                    (set_prop ''refreshToken'' (generateRefreshToken e m) m))
                 (NGO_coll w)\<rparr>"
    by (simp_all add: generateTokens_def Let_def)
  then have "data resp = JObj [(''ngo'', JObj n),
                                (''accessToken'', generateAccessToken e m),
                                (''refreshToken'', generateRefreshToken e m)]"
    and "NGO_coll w' =
               save_doc (get_prop m ''_id'')
                 (set_prop ''lastLogin'' (now e)
                    (set_prop ''refreshToken'' (generateRefreshToken e m) m))
                 (NGO_coll w)"
    by simp_all
  with n mem m show ?thesis by blast
qed

lemma registerNGO_success:
  assumes "registerNGO e req w = (Inr resp, w')"
  shows "\<exists>n. NGO_coll w' = NGO_coll w @ [n]
           \<and> data resp = JObj [(''ngo'', JObj [(''_id'', get_prop n ''_id''),
                                               (''name'', get_prop n ''name''),
                                               (''email'', get_prop n ''email''),
                                               (''status'', get_prop n ''verificationStatus'')])]"
  using assms
  by (auto simp: registerNGO_def NGO_create_def Activity_create_def registration_summary_def
      Let_def split: option.splits sum.splits)

lemma ex_login_run:
  "loginNGO ex_env ex_login ex_world =
     (Inr ex_login_response, ex_world\<lparr>NGO_coll := [ex_ngo1_logged_in, ex_ngo2]\<rparr>)"
  by (simp add: account_defs example_defs ex_login_def ex_login_response_def
      ex_ngo1_logged_in_def Let_def)

lemma ex_register_new_run:
  "registerNGO ex_env ex_register_new ex_world =
     (Inr ex_register_response,
      ex_world\<lparr>NGO_coll := [ex_ngo1, ex_ngo2, ex_ngo3], Activity_coll := [ex_activity],
                next_id := 102\<rparr>)"
  by (simp add: account_defs example_defs ex_register_new_def ex_register_response_def
      ex_ngo3_def ex_activity_def Let_def)

section \<open>The claims\<close>

text \<open>
  Claim C1. When an NGO whose status is \<^verbatim>\<open>ACTIVE\<close> creates a facility, exactly one
  record is added to the store. Its \<^verbatim>\<open>facilityType\<close> is \<^verbatim>\<open>CAMP\<close> and its
  \<^verbatim>\<open>status\<close> \<^verbatim>\<open>PLANNED\<close> when the \<^verbatim>\<open>type\<close> of the body is the string
  \<^verbatim>\<open>"CAMP"\<close>; for every other \<^verbatim>\<open>type\<close>, an absent one included, they are
  \<^verbatim>\<open>CENTER\<close> and \<^verbatim>\<open>INACTIVE\<close>. The body is arbitrary, so a
  \<^verbatim>\<open>facilityType\<close> or \<^verbatim>\<open>status\<close> sent by the client has no influence.
\<close>

theorem create_derives_type_and_status:
  assumes "get_prop (ngo req) ''status'' = NGO_STATUS_ACTIVE"
    and "get_prop (params req) ''action'' = FACILITY_OPERATIONS_CREATE"
  shows "\<exists>f. Facility_coll (snd (manageFacility e req w)) = Facility_coll w @ [f]
           \<and> get_prop f ''facilityType'' =
               (if get_prop (body req) ''type'' = JStr ''CAMP''
                then FACILITY_TYPE_CAMP else FACILITY_TYPE_CENTER)
           \<and> get_prop f ''status'' =
               (if get_prop (body req) ''type'' = JStr ''CAMP''
                then JStr ''PLANNED'' else JStr ''INACTIVE'')"
proof -
  let ?f = "new_document (facility_literal req) w"
  have "Facility_coll (snd (manageFacility e req w)) = Facility_coll w @ [?f]"
    by (simp add: manageFacility_create [OF assms] Let_def)
  then show ?thesis
    using created_facilityType [of req w] created_status [of req w] by blast
qed

theorem create_derives_type_and_status_witness:
  "get_prop (ngo ex_create_camp) ''status'' = NGO_STATUS_ACTIVE
   \<and> get_prop (params ex_create_camp) ''action'' = FACILITY_OPERATIONS_CREATE
   \<and> get_prop (body ex_create_camp) ''type'' = JStr ''CAMP''
   \<and> get_prop (body ex_create_camp) ''facilityType'' = JStr ''CENTER''
   \<and> get_prop (body ex_create_camp) ''status'' = JStr ''ACTIVE''
   \<and> (\<exists>f. Facility_coll (snd (manageFacility ex_env ex_create_camp ex_world))
             = Facility_coll ex_world @ [f]
          \<and> get_prop f ''facilityType'' = JStr ''CAMP''
          \<and> get_prop f ''status'' = JStr ''PLANNED'')
   \<and> get_prop (body ex_create_center) ''type'' = JUndefined
   \<and> (\<exists>f. Facility_coll (snd (manageFacility ex_env ex_create_center ex_world))
             = Facility_coll ex_world @ [f]
          \<and> get_prop f ''facilityType'' = JStr ''CENTER''
          \<and> get_prop f ''status'' = JStr ''INACTIVE'')"
proof -
  have h1: "get_prop (ngo ex_create_camp) ''status'' = NGO_STATUS_ACTIVE"
    by (simp add: ex_create_camp_def ex_request_def ex_active_ngo_def get_prop_def
        NGO_STATUS_ACTIVE_def)
  have h2: "get_prop (params ex_create_camp) ''action'' = FACILITY_OPERATIONS_CREATE"
    by (simp add: ex_create_camp_def ex_request_def get_prop_def FACILITY_OPERATIONS_CREATE_def)
  have b: "get_prop (body ex_create_camp) ''type'' = JStr ''CAMP''"
      "get_prop (body ex_create_camp) ''facilityType'' = JStr ''CENTER''"
      "get_prop (body ex_create_camp) ''status'' = JStr ''ACTIVE''"
    by (simp_all add: ex_create_camp_def ex_request_def ex_camp_body_def get_prop_def)
  have k1: "get_prop (ngo ex_create_center) ''status'' = NGO_STATUS_ACTIVE"
    by (simp add: ex_create_center_def ex_request_def ex_active_ngo_def get_prop_def
        NGO_STATUS_ACTIVE_def)
  have k2: "get_prop (params ex_create_center) ''action'' = FACILITY_OPERATIONS_CREATE"
    by (simp add: ex_create_center_def ex_request_def get_prop_def FACILITY_OPERATIONS_CREATE_def)
  have c: "get_prop (body ex_create_center) ''type'' = JUndefined"
    by (simp add: ex_create_center_def ex_request_def ex_center_body_def get_prop_def)
  have camp: "\<exists>f. Facility_coll (snd (manageFacility ex_env ex_create_camp ex_world))
             = Facility_coll ex_world @ [f]
          \<and> get_prop f ''facilityType'' = JStr ''CAMP''
          \<and> get_prop f ''status'' = JStr ''PLANNED''"
    using create_derives_type_and_status [OF h1 h2, of ex_env ex_world] b
    by (simp add: FACILITY_TYPE_CAMP_def)
  have center: "\<exists>f. Facility_coll (snd (manageFacility ex_env ex_create_center ex_world))
             = Facility_coll ex_world @ [f]
          \<and> get_prop f ''facilityType'' = JStr ''CENTER''
          \<and> get_prop f ''status'' = JStr ''INACTIVE''"
    using create_derives_type_and_status [OF k1 k2, of ex_env ex_world] c
    by (simp add: FACILITY_TYPE_CENTER_def)
  from h1 h2 b c camp center show ?thesis by blast
qed

text \<open>
  Claim C2, as amended. For \<^verbatim>\<open>update\<close>, \<^verbatim>\<open>delete\<close>, \<^verbatim>\<open>suspend\<close> and
  \<^verbatim>\<open>activate\<close>, when no stored facility has both the given id and the caller as
  owner, the handler raises and leaves the world as it was: nothing is returned and
  nothing is changed. The error is 404 when the caller's status is \<^verbatim>\<open>ACTIVE\<close>; a
  caller of any other status is stopped earlier, by the 403 of the activity check that
  precedes every operation.
\<close>

theorem foreign_facility_rejected:
  assumes "get_prop (params req) ''action'' \<in>
             {FACILITY_OPERATIONS_UPDATE, FACILITY_OPERATIONS_DELETE,
              FACILITY_OPERATIONS_SUSPEND, FACILITY_OPERATIONS_ACTIVATE}"
    and "\<forall>d \<in> set (Facility_coll w).
           get_prop d ''_id'' = get_prop (params req) ''facilityId''
             \<longrightarrow> get_prop d ''ngoId'' \<noteq> get_prop (ngo req) ''_id''"
  shows "manageFacility e req w =
           (Inl (if get_prop (ngo req) ''status'' = NGO_STATUS_ACTIVE
                 then ApiError 404 ''Facility not found''
                 else ApiError 403 ''NGO must be active to manage facilities''), w)"
proof (cases "get_prop (ngo req) ''status'' = NGO_STATUS_ACTIVE")
  case True
  have nc: "get_prop (params req) ''action'' \<noteq> FACILITY_OPERATIONS_CREATE"
    and nl: "get_prop (params req) ''action'' \<noteq> FACILITY_OPERATIONS_LIST"
    using assms(1) by (auto simp: constant_defs)
  have none: "Facility_findOne (get_prop (params req) ''facilityId'') (get_prop (ngo req) ''_id'') w = None"
    using assms(2) by (simp add: Facility_findOne_None)
  show ?thesis
    using manageFacility_lookup_fails [OF True nc nl none] True by simp
next
  case False
  then show ?thesis
    using manageFacility_inactive [OF False] by simp
qed

theorem foreign_facility_rejected_witness:
  "get_prop (params (ex_request [(''action'', JStr ''delete''), (''facilityId'', JOid 10)] []
                       ex_active_ngo)) ''action''
     \<in> {FACILITY_OPERATIONS_UPDATE, FACILITY_OPERATIONS_DELETE,
         FACILITY_OPERATIONS_SUSPEND, FACILITY_OPERATIONS_ACTIVATE}
   \<and> get_prop ex_facility ''_id'' = JOid 10
   \<and> get_prop ex_facility ''ngoId'' \<noteq> get_prop ex_active_ngo ''_id''
   \<and> manageFacility ex_env
        (ex_request [(''action'', JStr ''delete''), (''facilityId'', JOid 10)] [] ex_active_ngo)
        ex_world
     = (Inl (ApiError 404 ''Facility not found''), ex_world)"
proof -
  let ?req = "ex_request [(''action'', JStr ''delete''), (''facilityId'', JOid 10)] [] ex_active_ngo"
  have h1: "get_prop (params ?req) ''action'' \<in>
             {FACILITY_OPERATIONS_UPDATE, FACILITY_OPERATIONS_DELETE,
              FACILITY_OPERATIONS_SUSPEND, FACILITY_OPERATIONS_ACTIVATE}"
    by (simp add: ex_request_def get_prop_def constant_defs)
  have h2: "\<forall>d \<in> set (Facility_coll ex_world).
           get_prop d ''_id'' = get_prop (params ?req) ''facilityId''
             \<longrightarrow> get_prop d ''ngoId'' \<noteq> get_prop (ngo ?req) ''_id''"
    by (simp add: ex_world_def ex_facility_def ex_request_def ex_active_ngo_def get_prop_def)
  have st: "get_prop (ngo ?req) ''status'' = NGO_STATUS_ACTIVE"
    by (simp add: ex_request_def ex_active_ngo_def get_prop_def NGO_STATUS_ACTIVE_def)
  have own: "get_prop ex_facility ''_id'' = JOid 10"
      "get_prop ex_facility ''ngoId'' \<noteq> get_prop ex_active_ngo ''_id''"
    by (simp_all add: ex_facility_def ex_active_ngo_def get_prop_def)
  show ?thesis
    using foreign_facility_rejected [OF h1 h2, of ex_env] h1 st own by simp
qed

text \<open>
  Claim C2 as stated fails: a suspended NGO that updates the facility of another NGO
  receives 403, not 404.
\<close>

theorem foreign_facility_counterexample:
  "get_prop (params (ex_request [(''action'', JStr ''update''), (''facilityId'', JOid 10)]
                       [(''name'', JStr ''Taken over'')] ex_suspended_ngo)) ''action''
     = FACILITY_OPERATIONS_UPDATE
   \<and> Facility_coll ex_world = [ex_facility]
   \<and> get_prop ex_facility ''_id'' = JOid 10
   \<and> get_prop ex_facility ''ngoId'' \<noteq> get_prop ex_suspended_ngo ''_id''
   \<and> manageFacility ex_env
        (ex_request [(''action'', JStr ''update''), (''facilityId'', JOid 10)]
           [(''name'', JStr ''Taken over'')] ex_suspended_ngo)
        ex_world
     = (Inl (ApiError 403 ''NGO must be active to manage facilities''), ex_world)"
  by (simp add: manageFacility_def ex_request_def get_prop_def NGO_STATUS_ACTIVE_def
      FACILITY_OPERATIONS_UPDATE_def ex_world_def ex_facility_def ex_suspended_ngo_def)

text \<open>
  Claim C3. A create request of an NGO whose status is not \<^verbatim>\<open>ACTIVE\<close> is refused
  with 403, and the world, hence the facility collection, is unchanged.
\<close>

theorem inactive_ngo_cannot_create:
  assumes "get_prop (ngo req) ''status'' \<noteq> NGO_STATUS_ACTIVE"
    and "get_prop (params req) ''action'' = FACILITY_OPERATIONS_CREATE"
  shows "manageFacility e req w =
           (Inl (ApiError 403 ''NGO must be active to manage facilities''), w)"
  using assms(1) by (simp add: manageFacility_def Let_def)

theorem inactive_ngo_cannot_create_witness:
  "get_prop (ngo (ex_request [(''action'', JStr ''create'')] ex_camp_body ex_pending_ngo)) ''status''
     \<noteq> NGO_STATUS_ACTIVE
   \<and> get_prop (params (ex_request [(''action'', JStr ''create'')] ex_camp_body ex_pending_ngo))
       ''action'' = FACILITY_OPERATIONS_CREATE
   \<and> manageFacility ex_env (ex_request [(''action'', JStr ''create'')] ex_camp_body ex_pending_ngo)
       ex_world
     = (Inl (ApiError 403 ''NGO must be active to manage facilities''), ex_world)"
proof -
  let ?req = "ex_request [(''action'', JStr ''create'')] ex_camp_body ex_pending_ngo"
  have h1: "get_prop (ngo ?req) ''status'' \<noteq> NGO_STATUS_ACTIVE"
    by (simp add: ex_request_def ex_pending_ngo_def get_prop_def NGO_STATUS_ACTIVE_def)
  have h2: "get_prop (params ?req) ''action'' = FACILITY_OPERATIONS_CREATE"
    by (simp add: ex_request_def get_prop_def FACILITY_OPERATIONS_CREATE_def)
  show ?thesis
    using inactive_ngo_cannot_create [OF h1 h2, of ex_env ex_world] h1 h2 by simp
qed

text \<open>
  Claim C4. When a create request succeeds, the response carries the stored facility,
  whose location is the point of the longitude and latitude of the body and whose type
  is \<^verbatim>\<open>CAMP\<close> or \<^verbatim>\<open>CENTER\<close>. For a camp the calls to the notification
  service grow by exactly one bulk call with the template
  \<^verbatim>\<open>NEW_FACILITY_ANNOUNCEMENT\<close> and the id, name, type, start date and address of
  the facility. Its recipients are, with their \<^verbatim>\<open>_id\<close>, \<^verbatim>\<open>email\<close> and
  \<^verbatim>\<open>phone\<close>, exactly those users that the store finds within 10000 metres of the
  location of the facility, whose \<^verbatim>\<open>donorStatus\<close> is \<^verbatim>\<open>Active\<close> and whose
  \<^verbatim>\<open>notificationPreferences\<close> hold an element of type
  \<^verbatim>\<open>CAMP_ANNOUNCEMENTS\<close> that is enabled. For a center no call is made.
\<close>

theorem camp_creation_notifies_once:
  assumes "manageFacility e req w = (Inr resp, w')"
    and "get_prop (params req) ''action'' = FACILITY_OPERATIONS_CREATE"
  shows "\<exists>f. data resp = JObj f
           \<and> Facility_coll w' = Facility_coll w @ [f]
           \<and> get_prop f ''location'' =
               JObj [(''type'', JStr ''Point''),
                     (''coordinates'', JArr [get_prop (body req) ''longitude'',
                                             get_prop (body req) ''latitude''])]
           \<and> (get_prop f ''facilityType'' = FACILITY_TYPE_CAMP
                \<or> get_prop f ''facilityType'' = FACILITY_TYPE_CENTER)
           \<and> (get_prop f ''facilityType'' = FACILITY_TYPE_CAMP \<longrightarrow>
                notif_calls w' = notif_calls w @
                  [SendBulk
                     (map (\<lambda>u. JObj (filter (\<lambda>(k, v). k = ''_id'' \<or> k = ''email''
                                                       \<or> k = ''phone'') u))
                        (filter (\<lambda>u. get_prop u ''donorStatus'' = JStr ''Active''
                                     \<and> (\<exists>ps. get_prop u ''notificationPreferences'' = JArr ps
                                           \<and> (\<exists>p \<in> set ps.
                                                 opt_member p ''type'' = JStr ''CAMP_ANNOUNCEMENTS''
                                                 \<and> opt_member p ''enabled'' = JBool True)))
                           (geo_near e (get_prop f ''location'') 10000 (User_coll w))))
                     ''NEW_FACILITY_ANNOUNCEMENT''
                     [(''facilityId'', get_prop f ''_id''),
                      (''facilityName'', get_prop f ''name''),
                      (''facilityType'', get_prop f ''facilityType''),
                      (''startDate'', opt_member (get_prop f ''schedule'') ''startDate''),
                      (''location'', get_prop f ''address'')]])
           \<and> (get_prop f ''facilityType'' = FACILITY_TYPE_CENTER \<longrightarrow>
                notif_calls w' = notif_calls w)"
proof -
  define f where "f = new_document (facility_literal req) w"
  from manageFacility_create_success [OF assms, folded f_def]
  have f: "data resp = JObj f" "Facility_coll w' = Facility_coll w @ [f]"
      "get_prop f ''facilityType'' = FACILITY_TYPE_CAMP
         \<or> get_prop f ''facilityType'' = FACILITY_TYPE_CENTER"
    and camp: "get_prop f ''facilityType'' = FACILITY_TYPE_CAMP \<longrightarrow>
                notif_calls w' = notif_calls w @
                  [SendBulk (nearbyUsers e f w) ''NEW_FACILITY_ANNOUNCEMENT'' (announcement f)]"
    and center: "get_prop f ''facilityType'' = FACILITY_TYPE_CENTER \<longrightarrow>
                notif_calls w' = notif_calls w"
    by blast+
  note fdef = f_def
  from fdef have loc: "get_prop f ''location'' =
               JObj [(''type'', JStr ''Point''),
                     (''coordinates'', JArr [get_prop (body req) ''longitude'',
                                             get_prop (body req) ''latitude''])]"
    by (simp only: created_location)
  from camp have camp': "get_prop f ''facilityType'' = FACILITY_TYPE_CAMP \<longrightarrow>
                notif_calls w' = notif_calls w @
                  [SendBulk
                     (map (\<lambda>u. JObj (filter (\<lambda>(k, v). k = ''_id'' \<or> k = ''email''
                                                       \<or> k = ''phone'') u))
                        (filter (\<lambda>u. get_prop u ''donorStatus'' = JStr ''Active''
                                     \<and> (\<exists>ps. get_prop u ''notificationPreferences'' = JArr ps
                                           \<and> (\<exists>p \<in> set ps.
                                                 opt_member p ''type'' = JStr ''CAMP_ANNOUNCEMENTS''
                                                 \<and> opt_member p ''enabled'' = JBool True)))
                           (geo_near e (get_prop f ''location'') 10000 (User_coll w))))
                     ''NEW_FACILITY_ANNOUNCEMENT''
                     [(''facilityId'', get_prop f ''_id''),
                      (''facilityName'', get_prop f ''name''),
                      (''facilityType'', get_prop f ''facilityType''),
                      (''startDate'', opt_member (get_prop f ''schedule'') ''startDate''),
                      (''location'', get_prop f ''address'')]]"
    unfolding nearbyUsers_selection announcement_def .
  from f loc camp' center show ?thesis by blast
qed

theorem camp_creation_notifies_once_witness:
  "manageFacility ex_env_near ex_create_camp ex_world_donors =
     (Inr (ApiResponse 201 (JObj ex_camp_stored) ''Facility created successfully''),
      ex_world_donors\<lparr>Facility_coll := [ex_facility, ex_camp_stored], next_id := 101,
                       notif_calls := [ex_camp_call_near]\<rparr>)
   \<and> get_prop (params ex_create_camp) ''action'' = FACILITY_OPERATIONS_CREATE
   \<and> get_prop ex_camp_stored ''facilityType'' = FACILITY_TYPE_CAMP
   \<and> User_coll ex_world_donors =
       [ex_donor_far, ex_donor_inactive, ex_donor_near, ex_donor_opted_out]
   \<and> [ex_camp_call_near] = notif_calls ex_world_donors @
        [SendBulk
           (map (\<lambda>u. JObj (filter (\<lambda>(k, v). k = ''_id'' \<or> k = ''email'' \<or> k = ''phone'') u))
              (filter (\<lambda>u. get_prop u ''donorStatus'' = JStr ''Active''
                           \<and> (\<exists>ps. get_prop u ''notificationPreferences'' = JArr ps
                                 \<and> (\<exists>p \<in> set ps.
                                       opt_member p ''type'' = JStr ''CAMP_ANNOUNCEMENTS''
                                       \<and> opt_member p ''enabled'' = JBool True)))
                 (geo_near ex_env_near (get_prop ex_camp_stored ''location'') 10000
                    (User_coll ex_world_donors))))
           ''NEW_FACILITY_ANNOUNCEMENT''
           [(''facilityId'', get_prop ex_camp_stored ''_id''),
            (''facilityName'', get_prop ex_camp_stored ''name''),
            (''facilityType'', get_prop ex_camp_stored ''facilityType''),
            (''startDate'', opt_member (get_prop ex_camp_stored ''schedule'') ''startDate''),
            (''location'', get_prop ex_camp_stored ''address'')]]"
proof -
  have h2: "get_prop (params ex_create_camp) ''action'' = FACILITY_OPERATIONS_CREATE"
    by (simp add: ex_create_camp_def ex_request_def get_prop_def FACILITY_OPERATIONS_CREATE_def)
  have ty: "get_prop ex_camp_stored ''facilityType'' = FACILITY_TYPE_CAMP"
    by (simp add: ex_camp_stored_def get_prop_def FACILITY_TYPE_CAMP_def)
  have us: "User_coll ex_world_donors =
       [ex_donor_far, ex_donor_inactive, ex_donor_near, ex_donor_opted_out]"
    by (simp add: ex_world_donors_def)
  have nc: "notif_calls
              (ex_world_donors\<lparr>Facility_coll := [ex_facility, ex_camp_stored], next_id := 101,
                               notif_calls := [ex_camp_call_near]\<rparr>) = [ex_camp_call_near]"
    by simp
  from camp_creation_notifies_once [OF ex_create_camp_donors_run h2]
  obtain f where f: "data (ApiResponse 201 (JObj ex_camp_stored) ''Facility created successfully'')
                       = JObj f"
    and calls: "get_prop f ''facilityType'' = FACILITY_TYPE_CAMP \<longrightarrow>
      notif_calls
        (ex_world_donors\<lparr>Facility_coll := [ex_facility, ex_camp_stored], next_id := 101,
                         notif_calls := [ex_camp_call_near]\<rparr>)
      = notif_calls ex_world_donors @
        [SendBulk
           (map (\<lambda>u. JObj (filter (\<lambda>(k, v). k = ''_id'' \<or> k = ''email'' \<or> k = ''phone'') u))
              (filter (\<lambda>u. get_prop u ''donorStatus'' = JStr ''Active''
                           \<and> (\<exists>ps. get_prop u ''notificationPreferences'' = JArr ps
                                 \<and> (\<exists>p \<in> set ps.
                                       opt_member p ''type'' = JStr ''CAMP_ANNOUNCEMENTS''
                                       \<and> opt_member p ''enabled'' = JBool True)))
                 (geo_near ex_env_near (get_prop f ''location'') 10000
                    (User_coll ex_world_donors))))
           ''NEW_FACILITY_ANNOUNCEMENT''
           [(''facilityId'', get_prop f ''_id''),
            (''facilityName'', get_prop f ''name''),
            (''facilityType'', get_prop f ''facilityType''),
            (''startDate'', opt_member (get_prop f ''schedule'') ''startDate''),
            (''location'', get_prop f ''address'')]]"
    by blast
  from f have "f = ex_camp_stored" by simp
  with calls ty have "[ex_camp_call_near] = notif_calls ex_world_donors @
        [SendBulk
           (map (\<lambda>u. JObj (filter (\<lambda>(k, v). k = ''_id'' \<or> k = ''email'' \<or> k = ''phone'') u))
              (filter (\<lambda>u. get_prop u ''donorStatus'' = JStr ''Active''
                           \<and> (\<exists>ps. get_prop u ''notificationPreferences'' = JArr ps
                                 \<and> (\<exists>p \<in> set ps.
                                       opt_member p ''type'' = JStr ''CAMP_ANNOUNCEMENTS''
                                       \<and> opt_member p ''enabled'' = JBool True)))
                 (geo_near ex_env_near (get_prop ex_camp_stored ''location'') 10000
                    (User_coll ex_world_donors))))
           ''NEW_FACILITY_ANNOUNCEMENT''
           [(''facilityId'', get_prop ex_camp_stored ''_id''),
            (''facilityName'', get_prop ex_camp_stored ''name''),
            (''facilityType'', get_prop ex_camp_stored ''facilityType''),
            (''startDate'', opt_member (get_prop ex_camp_stored ''schedule'') ''startDate''),
            (''location'', get_prop ex_camp_stored ''address'')]]"
    unfolding nc by blast
  with ex_create_camp_donors_run h2 ty us show ?thesis by blast
qed

text \<open>
  Claim C5, as amended. Let the email or the registration number of a registration
  request equal that of a stored NGO. If the request passes the five checks of the
  field validation, the handler raises 409. If one of the checks rejects it with a 400,
  that 400 is the outcome, because the validation precedes the lookup. In both cases
  the world is unchanged: no account is created.
\<close>

theorem duplicate_registration_rejected:
  assumes "\<exists>d \<in> set (NGO_coll w).
             get_prop d ''email'' = get_prop (body req) ''email''
             \<or> get_prop d ''regNumber'' = get_prop (body req) ''regNumber''"
  shows "(validateRegistration (body req) = None \<longrightarrow>
            (\<exists>msg. registerNGO e req w = (Inl (ApiError 409 msg), w)))
         \<and> (\<forall>m. validateRegistration (body req) = Some (ApiError 400 m) \<longrightarrow>
               registerNGO e req w = (Inl (ApiError 400 m), w))"
proof -
  from find_Some_ex [OF assms]
  obtain x where x: "NGO_findOne_email_or_regNumber (get_prop (body req) ''email'')
                       (get_prop (body req) ''regNumber'') w = Some x"
    unfolding NGO_findOne_email_or_regNumber_def by blast
  have a: "validateRegistration (body req) = None \<longrightarrow>
            (\<exists>msg. registerNGO e req w = (Inl (ApiError 409 msg), w))"
    by (simp add: registerNGO_def x)
  have b: "\<forall>m. validateRegistration (body req) = Some (ApiError 400 m) \<longrightarrow>
               registerNGO e req w = (Inl (ApiError 400 m), w)"
    by (simp add: registerNGO_def)
  from a b show ?thesis ..
qed

theorem duplicate_registration_rejected_witness:
  "(\<exists>d \<in> set (NGO_coll ex_world).
       get_prop d ''email'' = get_prop (body ex_register_dup) ''email''
       \<or> get_prop d ''regNumber'' = get_prop (body ex_register_dup) ''regNumber'')
   \<and> validateRegistration (body ex_register_dup) = None
   \<and> (\<exists>msg. registerNGO ex_env ex_register_dup ex_world = (Inl (ApiError 409 msg), ex_world))
   \<and> (\<exists>d \<in> set (NGO_coll ex_world).
       get_prop d ''email'' = get_prop (body ex_register_short) ''email''
       \<or> get_prop d ''regNumber'' = get_prop (body ex_register_short) ''regNumber'')
   \<and> validateRegistration (body ex_register_short)
       = Some (ApiError 400 ''Password must be at least 8 characters'')
   \<and> registerNGO ex_env ex_register_short ex_world
       = (Inl (ApiError 400 ''Password must be at least 8 characters''), ex_world)
   \<and> (\<exists>d \<in> set (NGO_coll ex_world).
       get_prop d ''email'' = get_prop (body ex_register_blank) ''email''
       \<or> get_prop d ''regNumber'' = get_prop (body ex_register_blank) ''regNumber'')
   \<and> get_prop (body ex_register_blank) ''name'' = JString [0x00A0, 0x3000, 0xFEFF]
   \<and> validateRegistration (body ex_register_blank)
       = Some (ApiError 400 ''NGO name is required'')
   \<and> registerNGO ex_env ex_register_blank ex_world
       = (Inl (ApiError 400 ''NGO name is required''), ex_world)"
proof -
  have h: "\<exists>d \<in> set (NGO_coll ex_world).
       get_prop d ''email'' = get_prop (body ex_register_dup) ''email''
       \<or> get_prop d ''regNumber'' = get_prop (body ex_register_dup) ''regNumber''"
    by (simp add: example_defs ex_register_dup_def get_prop_def)
  have v: "validateRegistration (body ex_register_dup) = None"
    by (simp add: validateRegistration_def example_defs ex_register_dup_def get_prop_def trim_def
        is_space_def)
  have k: "\<exists>d \<in> set (NGO_coll ex_world).
       get_prop d ''email'' = get_prop (body ex_register_short) ''email''
       \<or> get_prop d ''regNumber'' = get_prop (body ex_register_short) ''regNumber''"
    by (simp add: example_defs ex_register_short_def get_prop_def)
  have u: "validateRegistration (body ex_register_short)
             = Some (ApiError 400 ''Password must be at least 8 characters'')"
    by (simp add: validateRegistration_def example_defs ex_register_short_def get_prop_def
        trim_def is_space_def)
  have l: "\<exists>d \<in> set (NGO_coll ex_world).
       get_prop d ''email'' = get_prop (body ex_register_blank) ''email''
       \<or> get_prop d ''regNumber'' = get_prop (body ex_register_blank) ''regNumber''"
    by (simp add: example_defs ex_register_blank_def get_prop_def)
  have n: "get_prop (body ex_register_blank) ''name'' = JString [0x00A0, 0x3000, 0xFEFF]"
    by (simp add: example_defs ex_register_blank_def get_prop_def)
  have t: "validateRegistration (body ex_register_blank)
             = Some (ApiError 400 ''NGO name is required'')"
    by (simp add: validateRegistration_def example_defs ex_register_blank_def get_prop_def
        trim_def is_space_def)
  from duplicate_registration_rejected [OF h, of ex_env]
       duplicate_registration_rejected [OF k, of ex_env]
       duplicate_registration_rejected [OF l, of ex_env] h v k u l n t
  show ?thesis by blast
qed

text \<open>
  Claim C5 as stated fails: a request with a registered email and a password of five
  characters receives 400, not 409.
\<close>

theorem duplicate_registration_counterexample:
  "get_prop ex_ngo1 ''email'' = get_prop (body ex_register_short) ''email''
   \<and> NGO_coll ex_world = [ex_ngo1, ex_ngo2]
   \<and> registerNGO ex_env ex_register_short ex_world =
       (Inl (ApiError 400 ''Password must be at least 8 characters''), ex_world)"
  by (simp add: account_defs example_defs ex_register_short_def)

text \<open>
  Claim C6, as amended. When a camp is created and the bulk dispatch raises, the
  facility stays in the store (nothing is rolled back), and the error of the dispatch
  is the outcome of the handler: the call is awaited and not caught, so no success
  response is produced.
\<close>

theorem failed_dispatch_propagates:
  assumes "get_prop (ngo req) ''status'' = NGO_STATUS_ACTIVE"
    and "get_prop (params req) ''action'' = FACILITY_OPERATIONS_CREATE"
    and "get_prop (body req) ''type'' = JStr ''CAMP''"
    and "sendBulkNotifications e (nearbyUsers e (new_document (facility_literal req) w) w)
           ''NEW_FACILITY_ANNOUNCEMENT'' (announcement (new_document (facility_literal req) w))
         = Some msg"
  shows "fst (manageFacility e req w) = Inl (ServiceError msg)
         \<and> Facility_coll (snd (manageFacility e req w)) =
             Facility_coll w @ [new_document (facility_literal req) w]"
  unfolding manageFacility_create [OF assms(1,2)] Let_def
  using assms(3,4) by simp

theorem failed_dispatch_propagates_witness:
  "get_prop (ngo ex_create_camp) ''status'' = NGO_STATUS_ACTIVE
   \<and> get_prop (params ex_create_camp) ''action'' = FACILITY_OPERATIONS_CREATE
   \<and> get_prop (body ex_create_camp) ''type'' = JStr ''CAMP''
   \<and> sendBulkNotifications ex_env_down
         (nearbyUsers ex_env_down (new_document (facility_literal ex_create_camp) ex_world) ex_world)
         ''NEW_FACILITY_ANNOUNCEMENT''
         (announcement (new_document (facility_literal ex_create_camp) ex_world))
       = Some ''service unavailable''
   \<and> fst (manageFacility ex_env_down ex_create_camp ex_world)
       = Inl (ServiceError ''service unavailable'')
   \<and> Facility_coll (snd (manageFacility ex_env_down ex_create_camp ex_world))
       = Facility_coll ex_world @ [new_document (facility_literal ex_create_camp) ex_world]"
proof -
  have h1: "get_prop (ngo ex_create_camp) ''status'' = NGO_STATUS_ACTIVE"
    by (simp add: ex_create_camp_def ex_request_def ex_active_ngo_def get_prop_def NGO_STATUS_ACTIVE_def)
  have h2: "get_prop (params ex_create_camp) ''action'' = FACILITY_OPERATIONS_CREATE"
    by (simp add: ex_create_camp_def ex_request_def get_prop_def FACILITY_OPERATIONS_CREATE_def)
  have h3: "get_prop (body ex_create_camp) ''type'' = JStr ''CAMP''"
    by (simp add: ex_create_camp_def ex_request_def ex_camp_body_def get_prop_def)
  have h4: "sendBulkNotifications ex_env_down
         (nearbyUsers ex_env_down (new_document (facility_literal ex_create_camp) ex_world) ex_world)
         ''NEW_FACILITY_ANNOUNCEMENT''
         (announcement (new_document (facility_literal ex_create_camp) ex_world))
       = Some ''service unavailable''"
    by (simp add: ex_env_down_def)
  from failed_dispatch_propagates [OF h1 h2 h3 h4] h1 h2 h3 h4 show ?thesis by blast
qed

text \<open>
  Claim C6 as stated fails: with a notification service that raises, the create request
  for a camp ends in that error, while the camp is stored.
\<close>

theorem failed_dispatch_counterexample:
  "get_prop (body ex_create_camp) ''type'' = JStr ''CAMP''
   \<and> sendBulkNotifications ex_env_down (nearbyUsers ex_env_down ex_camp_stored ex_world)
        ''NEW_FACILITY_ANNOUNCEMENT'' (announcement ex_camp_stored) = Some ''service unavailable''
   \<and> manageFacility ex_env_down ex_create_camp ex_world =
       (Inl (ServiceError ''service unavailable''),
        ex_world\<lparr>Facility_coll := [ex_facility, ex_camp_stored], next_id := 101,
                  notif_calls := [ex_camp_call]\<rparr>)"
  by (simp add: handler_defs example_defs constant_defs ex_create_camp_def ex_camp_stored_def
      ex_camp_call_def Let_def)

text \<open>
  Claim C7, as amended. A request whose operation is none of \<^verbatim>\<open>create\<close>,
  \<^verbatim>\<open>update\<close>, \<^verbatim>\<open>delete\<close>, \<^verbatim>\<open>suspend\<close>, \<^verbatim>\<open>activate\<close>,
  \<^verbatim>\<open>LIST\<close> is always rejected and changes nothing, with the first error that
  applies: 403 when the caller is not \<^verbatim>\<open>ACTIVE\<close>, 404 when no facility with the
  given id belongs to the caller, and 400 only when such a facility exists.
\<close>

theorem unknown_operation_rejected:
  assumes "get_prop (params req) ''action'' \<notin>
           {FACILITY_OPERATIONS_CREATE, FACILITY_OPERATIONS_UPDATE, FACILITY_OPERATIONS_DELETE,
            FACILITY_OPERATIONS_SUSPEND, FACILITY_OPERATIONS_ACTIVATE, FACILITY_OPERATIONS_LIST}"
  shows "manageFacility e req w =
           (Inl (if get_prop (ngo req) ''status'' \<noteq> NGO_STATUS_ACTIVE
                 then ApiError 403 ''NGO must be active to manage facilities''
                 else if Facility_findOne (get_prop (params req) ''facilityId'')
                           (get_prop (ngo req) ''_id'') w = None
                 then ApiError 404 ''Facility not found''
                 else ApiError 400 ''Invalid operation''), w)"
proof (cases "get_prop (ngo req) ''status'' = NGO_STATUS_ACTIVE")
  case False
  then show ?thesis using manageFacility_inactive [OF False] by simp
next
  case True
  show ?thesis
  proof (cases "Facility_findOne (get_prop (params req) ''facilityId'') (get_prop (ngo req) ''_id'') w")
    case None
    have "get_prop (params req) ''action'' \<noteq> FACILITY_OPERATIONS_CREATE"
      and "get_prop (params req) ''action'' \<noteq> FACILITY_OPERATIONS_LIST"
      using assms by simp_all
    from manageFacility_lookup_fails [OF True this None] True None show ?thesis by simp
  next
    case (Some f)
    from manageFacility_default [OF True assms Some] True Some show ?thesis by simp
  qed
qed

theorem unknown_operation_rejected_witness:
  "get_prop (params ex_archive_own) ''action'' \<notin>
           {FACILITY_OPERATIONS_CREATE, FACILITY_OPERATIONS_UPDATE, FACILITY_OPERATIONS_DELETE,
            FACILITY_OPERATIONS_SUSPEND, FACILITY_OPERATIONS_ACTIVATE, FACILITY_OPERATIONS_LIST}
   \<and> manageFacility ex_env ex_archive_own ex_world = (Inl (ApiError 400 ''Invalid operation''), ex_world)"
proof -
  have h: "get_prop (params ex_archive_own) ''action'' \<notin>
           {FACILITY_OPERATIONS_CREATE, FACILITY_OPERATIONS_UPDATE, FACILITY_OPERATIONS_DELETE,
            FACILITY_OPERATIONS_SUSPEND, FACILITY_OPERATIONS_ACTIVATE, FACILITY_OPERATIONS_LIST}"
    by (simp add: ex_archive_own_def ex_request_def get_prop_def constant_defs)
  have st: "get_prop (ngo ex_archive_own) ''status'' = NGO_STATUS_ACTIVE"
    by (simp add: ex_archive_own_def ex_request_def get_prop_def NGO_STATUS_ACTIVE_def)
  have found: "Facility_findOne (get_prop (params ex_archive_own) ''facilityId'')
                 (get_prop (ngo ex_archive_own) ''_id'') ex_world = Some ex_facility"
    by (simp add: ex_archive_own_def ex_request_def get_prop_def Facility_findOne_def
        ex_world_def ex_facility_def)
  from unknown_operation_rejected [OF h, of ex_env ex_world] h st found show ?thesis by simp
qed

text \<open>
  Claim C7 as stated fails: the unknown operation \<^verbatim>\<open>archive\<close> of an active NGO on
  a facility it does not own receives 404, not 400.
\<close>

theorem unknown_operation_counterexample:
  "get_prop (params ex_archive) ''action'' = JStr ''archive''
   \<and> get_prop (ngo ex_archive) ''status'' = NGO_STATUS_ACTIVE
   \<and> manageFacility ex_env ex_archive ex_world = (Inl (ApiError 404 ''Facility not found''), ex_world)"
  by (simp add: handler_defs example_defs constant_defs ex_archive_def Let_def)

text \<open>
  Claim C8. When the stored NGO of the caller has a verification status other than
  \<^verbatim>\<open>PENDING\<close>, resending the code is refused with 400 and the world is unchanged:
  no code is stored and no notification is sent.
\<close>

theorem resend_refused_unless_pending:
  assumes "NGO_findById (get_prop (ngo req) ''_id'') w = Some n"
    and "get_prop n ''verificationStatus'' \<noteq> NGO_STATUS_PENDING"
  shows "resendVerificationOtp e req w =
           (Inl (ApiError 400 ''Verification already completed or not pending''), w)"
  using assms by (simp add: resendVerificationOtp_def)

theorem resend_refused_unless_pending_witness:
  "NGO_findById (get_prop (ngo (ex_request [] [] ex_active_ngo)) ''_id'') ex_world = Some ex_ngo1
   \<and> get_prop ex_ngo1 ''verificationStatus'' \<noteq> NGO_STATUS_PENDING
   \<and> resendVerificationOtp ex_env (ex_request [] [] ex_active_ngo) ex_world =
       (Inl (ApiError 400 ''Verification already completed or not pending''), ex_world)"
proof -
  have h1: "NGO_findById (get_prop (ngo (ex_request [] [] ex_active_ngo)) ''_id'') ex_world = Some ex_ngo1"
    by (simp add: NGO_findById_def example_defs get_prop_def)
  have h2: "get_prop ex_ngo1 ''verificationStatus'' \<noteq> NGO_STATUS_PENDING"
    by (simp add: ex_ngo1_def get_prop_def NGO_STATUS_PENDING_def)
  from resend_refused_unless_pending [OF h1 h2, of ex_env] h1 h2 show ?thesis by blast
qed

text \<open>
  Claim C9, as amended. The data of a successful login are the NGO document as the
  lookup by email loaded it, a member of the collection before the login and hence with
  its stored password and with the refresh token and login time it had before, together
  with the new access token and the new refresh token as fields of their own. The new
  refresh token and login time are saved on a second copy of the document, loaded by
  \<^verbatim>\<open>generateTokens\<close>. Nothing is redacted, whereas the data of a successful
  registration hold only \<^verbatim>\<open>_id\<close>, \<^verbatim>\<open>name\<close>, \<^verbatim>\<open>email\<close> and
  \<^verbatim>\<open>status\<close> of the new account.
\<close>

theorem login_response_contents:
  "(loginNGO e req w = (Inr resp, w') \<longrightarrow>
      (\<exists>n m. NGO_findOne_email (get_prop (body req) ''email'') w = Some n
           \<and> n \<in> set (NGO_coll w)
           \<and> NGO_findById (get_prop n ''_id'') w = Some m
           \<and> data resp = JObj [(''ngo'', JObj n),
                                (''accessToken'', generateAccessToken e m),
                                (''refreshToken'', generateRefreshToken e m)]
           \<and> NGO_coll w' =
               save_doc (get_prop m ''_id'')
                 (set_prop ''lastLogin'' (now e)
                    (set_prop ''refreshToken'' (generateRefreshToken e m) m))
                 (NGO_coll w)))
   \<and> (registerNGO e2 req2 v = (Inr resp2, v') \<longrightarrow>
        (\<exists>n. NGO_coll v' = NGO_coll v @ [n]
           \<and> data resp2 = JObj [(''ngo'', JObj [(''_id'', get_prop n ''_id''),
                                                (''name'', get_prop n ''name''),
                                                (''email'', get_prop n ''email''),
                                                (''status'', get_prop n ''verificationStatus'')])]))"
  using loginNGO_success [of e req w resp w'] registerNGO_success [of e2 req2 v resp2 v']
  by blast

theorem login_response_contents_witness:
  "loginNGO ex_env ex_login ex_world =
     (Inr ex_login_response, ex_world\<lparr>NGO_coll := [ex_ngo1_logged_in, ex_ngo2]\<rparr>)
   \<and> registerNGO ex_env ex_register_new ex_world =
       (Inr ex_register_response,
        ex_world\<lparr>NGO_coll := [ex_ngo1, ex_ngo2, ex_ngo3], Activity_coll := [ex_activity],
                  next_id := 102\<rparr>)
   \<and> (\<exists>n m. NGO_findOne_email (get_prop (body ex_login) ''email'') ex_world = Some n
          \<and> n \<in> set (NGO_coll ex_world)
          \<and> NGO_findById (get_prop n ''_id'') ex_world = Some m
          \<and> data ex_login_response =
              JObj [(''ngo'', JObj n), (''accessToken'', generateAccessToken ex_env m),
                    (''refreshToken'', generateRefreshToken ex_env m)])
   \<and> (\<exists>n. data ex_register_response =
              JObj [(''ngo'', JObj [(''_id'', get_prop n ''_id''),
                                    (''name'', get_prop n ''name''),
                                    (''email'', get_prop n ''email''),
                                    (''status'', get_prop n ''verificationStatus'')])])"
proof -
  from login_response_contents
         [of ex_env ex_login ex_world ex_login_response
             "ex_world\<lparr>NGO_coll := [ex_ngo1_logged_in, ex_ngo2]\<rparr>"
             ex_env ex_register_new ex_world ex_register_response
             "ex_world\<lparr>NGO_coll := [ex_ngo1, ex_ngo2, ex_ngo3], Activity_coll := [ex_activity],
                        next_id := 102\<rparr>"]
       ex_login_run ex_register_new_run
  show ?thesis by blast
qed

text \<open>
  Claim C9 as stated fails: the document in the login response carries the refresh
  token of before the login and no login time; the new ones are in the store only.
\<close>

theorem login_stale_document_counterexample:
  "fst (loginNGO ex_env ex_login ex_world) = Inr ex_login_response
   \<and> opt_member (opt_member (data ex_login_response) ''ngo'') ''refreshToken''
       = JStr ''refresh-old''
   \<and> opt_member (opt_member (data ex_login_response) ''ngo'') ''lastLogin'' = JUndefined
   \<and> NGO_findById (JOid 1) (snd (loginNGO ex_env ex_login ex_world)) = Some ex_ngo1_logged_in
   \<and> get_prop ex_ngo1_logged_in ''refreshToken'' = JStr ''refresh-new''
   \<and> get_prop ex_ngo1_logged_in ''lastLogin'' = JNum 1000"
proof -
  have "fst (loginNGO ex_env ex_login ex_world) = Inr ex_login_response"
    by (simp add: ex_login_run)
  moreover have "opt_member (opt_member (data ex_login_response) ''ngo'') ''refreshToken''
                   = JStr ''refresh-old''"
    and "opt_member (opt_member (data ex_login_response) ''ngo'') ''lastLogin'' = JUndefined"
    by (simp_all add: ex_login_response_def ex_ngo1_def get_prop_def)
  moreover have "NGO_findById (JOid 1) (snd (loginNGO ex_env ex_login ex_world))
                   = Some ex_ngo1_logged_in"
    by (simp add: ex_login_run NGO_findById_def ex_ngo1_logged_in_def get_prop_def)
  moreover have "get_prop ex_ngo1_logged_in ''refreshToken'' = JStr ''refresh-new''"
    and "get_prop ex_ngo1_logged_in ''lastLogin'' = JNum 1000"
    by (simp_all add: ex_ngo1_logged_in_def get_prop_def)
  ultimately show ?thesis by simp
qed

text \<open>
  Claim C10. When the stored NGO of the caller is \<^verbatim>\<open>PENDING\<close>, resending the code
  raises the \<^verbatim>\<open>ReferenceError\<close> of the unbound name \<^verbatim>\<open>generateOtp\<close>, with the
  world unchanged: no code is stored and no notification is sent. For no request does
  the handler return a response, and it never changes the world.
\<close>

theorem resend_never_succeeds:
  "(NGO_findById (get_prop (ngo req) ''_id'') w = Some n
      \<and> get_prop n ''verificationStatus'' = NGO_STATUS_PENDING \<longrightarrow>
        resendVerificationOtp e req w = (Inl (ReferenceError ''generateOtp''), w))
   \<and> (\<forall>resp. fst (resendVerificationOtp e req w) \<noteq> Inr resp)
   \<and> snd (resendVerificationOtp e req w) = w"
  by (simp add: resendVerificationOtp_def generateOtp_unbound split: option.split)

theorem resend_never_succeeds_witness:
  "NGO_findById (get_prop (ngo (ex_request [] [] ex_pending_ngo)) ''_id'') ex_world = Some ex_ngo2
   \<and> get_prop ex_ngo2 ''verificationStatus'' = NGO_STATUS_PENDING
   \<and> resendVerificationOtp ex_env (ex_request [] [] ex_pending_ngo) ex_world =
       (Inl (ReferenceError ''generateOtp''), ex_world)"
proof -
  have h1: "NGO_findById (get_prop (ngo (ex_request [] [] ex_pending_ngo)) ''_id'') ex_world = Some ex_ngo2"
    by (simp add: NGO_findById_def example_defs get_prop_def)
  have h2: "get_prop ex_ngo2 ''verificationStatus'' = NGO_STATUS_PENDING"
    by (simp add: ex_ngo2_def get_prop_def NGO_STATUS_PENDING_def)
  from resend_never_succeeds [of "ex_request [] [] ex_pending_ngo" ex_world ex_ngo2 ex_env] h1 h2
  show ?thesis by blast
qed

end
